theory Spec2Isabelle
  imports Main
begin

unbundle bit_operations_syntax

section \<open>Data model of chan\_dahdi.c\<close>

text \<open>
  Pointers to \<^verbatim>\<open>struct dahdi_pvt\<close> and \<^verbatim>\<open>struct ast_channel\<close> are
  addresses into two stores; a NULL pointer is \<open>None\<close>.  C \<^verbatim>\<open>int\<close> values
  are \<open>int\<close>: none of the modelled code does arithmetic that could overflow.
\<close>

type_synonym pvt_ptr = nat
type_synonym chan_ptr = nat

definition SUB_REAL :: nat where "SUB_REAL = 0"
definition SUB_CALLWAIT :: nat where "SUB_CALLWAIT = 1"
definition SUB_THREEWAY :: nat where "SUB_THREEWAY = 2"

definition POLARITY_IDLE :: int where "POLARITY_IDLE = 0"
definition POLARITY_REV :: int where "POLARITY_REV = 1"

definition MAX_SLAVES :: nat where "MAX_SLAVES = 4"

definition MIN_MS_SINCE_FLASH :: int where "MIN_MS_SINCE_FLASH = 2000"


text \<open>\<^verbatim>\<open>struct dahdi_confinfo\<close> (declared by the DAHDI kernel interface).\<close>

record dahdi_confinfo =
  ci_chan :: int
  confno :: int
  confmode :: int

text \<open>The value left by \<^verbatim>\<open>memset(&zi, 0, sizeof(zi))\<close>.\<close>

definition zero_confinfo :: dahdi_confinfo where
  "zero_confinfo = \<lparr>ci_chan = 0, confno = 0, confmode = 0\<rparr>"

text \<open>
  \<^verbatim>\<open>struct dahdi_subchannel\<close>.  The audio buffer and the embedded frame are
  left out: no modelled function reads them.
\<close>

record dahdi_subchannel =
  dfd :: int
  owner :: "chan_ptr option"
  chan :: int
  needringing :: bool
  needbusy :: bool
  needcongestion :: bool
  needcallerid :: bool
  needanswer :: bool
  needflash :: bool
  needhold :: bool
  needunhold :: bool
  linear :: bool
  inthreeway :: bool
  curconf :: dahdi_confinfo

text \<open>
  The signalling styles \<^verbatim>\<open>SIG_*\<close>.  Their numeric values are built from
  constants of the DAHDI header, which is outside this repository, so they are
  kept symbolic; \<open>SIG_PSEUDO\<close> is the value 0 and \<open>SIG_UNKNOWN\<close> any value
  without a name.
\<close>

datatype signalling =
  SIG_PSEUDO | SIG_EM | SIG_EMWINK | SIG_FEATD | SIG_FEATDMF | SIG_FEATB | SIG_E911
  | SIG_FEATDMF_TA | SIG_FGC_CAMA | SIG_FGC_CAMAMF | SIG_FXSLS | SIG_FXSGS | SIG_FXSKS
  | SIG_FXOLS | SIG_FXOGS | SIG_FXOKS | SIG_PRI | SIG_BRI | SIG_BRI_PTMP | SIG_SS7
  | SIG_SF | SIG_SFWINK | SIG_SF_FEATD | SIG_SF_FEATDMF | SIG_SF_FEATB | SIG_EM_E1
  | SIG_GR303FXOKS | SIG_GR303FXSKS | SIG_UNKNOWN int

text \<open>
  \<^verbatim>\<open>struct dahdi_pvt\<close>, with the fields the modelled functions read or
  write.  \<open>subs\<close> is the array \<^verbatim>\<open>subs[3]\<close> and \<open>slaves\<close> the array
  \<^verbatim>\<open>slaves[MAX_SLAVES]\<close>, both as functions of the index; the code only uses
  indices below 3 and below \<open>MAX_SLAVES\<close>.  The field \<^verbatim>\<open>owner\<close> of the
  line is \<open>powner\<close> (the sub-channel has a field of the same name), its
  \<^verbatim>\<open>confno\<close> is \<open>confno_p\<close>, and \<open>outsigmod\<close> is \<open>None\<close> for \<open>-1\<close>.
  Times (\<open>flashtime\<close>, \<open>polaritydelaytv\<close>) are in milliseconds.
\<close>

record dahdi_pvt =
  powner :: "chan_ptr option"
  subs :: "nat \<Rightarrow> dahdi_subchannel"
  slaves :: "nat \<Rightarrow> pvt_ptr option"
  master :: "pvt_ptr option"
  bearer :: "pvt_ptr option"
  inconference :: bool
  sig :: signalling
  radio :: int
  outsigmod :: "signalling option"
  oprmode :: int
  channel :: int
  law :: int
  confno_p :: int
  polarity :: int
  echocanon :: bool
  digital :: bool
  echocancel_taps :: int
  echotraining :: int
  dialing :: bool
  dialednone :: bool
  outgoing :: bool
  pulsedial :: bool
  transfer :: bool
  transfertobusy :: bool
  threewaycalling :: bool
  hanguponpolarityswitch :: bool
  inalarm :: bool
  proceeding :: bool
  ringt :: int
  callwaitcas :: int
  callwaitingrepeat :: int
  cidcwexpire :: int
  onhooktime :: int
  msgstate :: int
  flashtime :: int
  polaritydelaytv :: int
  dialdest :: string

text \<open>Frames and the part of \<^verbatim>\<open>struct ast_channel\<close> the driver touches.\<close>

datatype frametype =
  AST_FRAME_NULL | AST_FRAME_VOICE | AST_FRAME_DTMF | AST_FRAME_DTMF_BEGIN
  | AST_FRAME_CONTROL | AST_FRAME_OTHER

record ast_frame =
  ftype :: frametype
  fsubclass :: int

definition ast_null_frame :: ast_frame where
  "ast_null_frame = \<lparr>ftype = AST_FRAME_NULL, fsubclass = 0\<rparr>"

datatype ast_state =
  AST_STATE_DOWN | AST_STATE_RESERVED | AST_STATE_OFFHOOK | AST_STATE_DIALING
  | AST_STATE_RING | AST_STATE_RINGING | AST_STATE_UP | AST_STATE_BUSY
  | AST_STATE_DIALING_OFFHOOK | AST_STATE_PRERING

record ast_channel =
  state :: ast_state
  fds :: "nat \<Rightarrow> int"
  tech_pvt :: "pvt_ptr option"
  pbx :: bool
  softhangup :: int
  bridged :: "chan_ptr option"
  readq :: "ast_frame list"
  written :: "ast_frame list"

text \<open>
  What the driver does to the outside, in order: the calls into the DAHDI
  device (a tone of \<open>-1\<close> is \<open>TONE_STOP\<close>), into the protocol engine and the
  PBX core, and the warnings it logs.
\<close>

datatype hookstate = DAHDI_ONHOOK | DAHDI_OFFHOOK | DAHDI_RING | DAHDI_RINGOFF

datatype tone = TONE_STOP | DAHDI_TONE_RINGTONE | DAHDI_TONE_DIALRECALL | DAHDI_TONE_CONGESTION

datatype hw_call =
  SETCONF int dahdi_confinfo
  | CLOSE int
  | HOOK int hookstate
  | TONE int tone
  | FLUSH int
  | SET_GAIN int
  | ECHOCANCEL int int
  | ECHOTRAIN int int
  | AUDIOMODE int
  | PROTO_ANSWER
  | MASQUERADE chan_ptr chan_ptr
  | INDICATE_RINGING chan_ptr
  | LOG_WARNING string

record world =
  pvts :: "pvt_ptr \<Rightarrow> dahdi_pvt"
  chans :: "chan_ptr \<Rightarrow> ast_channel"
  trace :: "hw_call list"

definition upd_pvt :: "world \<Rightarrow> pvt_ptr \<Rightarrow> (dahdi_pvt \<Rightarrow> dahdi_pvt) \<Rightarrow> world" where
  "upd_pvt w p f = w\<lparr>pvts := (pvts w)(p := f (pvts w p))\<rparr>"

definition upd_sub ::
  "world \<Rightarrow> pvt_ptr \<Rightarrow> nat \<Rightarrow> (dahdi_subchannel \<Rightarrow> dahdi_subchannel) \<Rightarrow> world" where
  "upd_sub w p x f = upd_pvt w p (\<lambda>P. P\<lparr>subs := (subs P)(x := f (subs P x))\<rparr>)"

definition upd_chan :: "world \<Rightarrow> chan_ptr \<Rightarrow> (ast_channel \<Rightarrow> ast_channel) \<Rightarrow> world" where
  "upd_chan w c f = w\<lparr>chans := (chans w)(c := f (chans w c))\<rparr>"

definition emit :: "world \<Rightarrow> hw_call \<Rightarrow> world" where
  "emit w a = w\<lparr>trace := trace w @ [a]\<rparr>"

text \<open>\<^verbatim>\<open>p->subs[x]\<close> read in world \<open>w\<close>.\<close>

definition sub_of :: "world \<Rightarrow> pvt_ptr \<Rightarrow> nat \<Rightarrow> dahdi_subchannel" where
  "sub_of w p x = subs (pvts w p) x"

section \<open>Sub-channel multiplexer\<close>

definition ast_channel_set_fd :: "world \<Rightarrow> chan_ptr \<Rightarrow> nat \<Rightarrow> int \<Rightarrow> world" where
  "ast_channel_set_fd w c which fd = upd_chan w c (\<lambda>C. C\<lparr>fds := (fds C)(which := fd)\<rparr>)"

definition ast_queue_frame :: "world \<Rightarrow> chan_ptr \<Rightarrow> ast_frame \<Rightarrow> world" where
  "ast_queue_frame w c f = upd_chan w c (\<lambda>C. C\<lparr>readq := readq C @ [f]\<rparr>)"

text \<open>
  \<^verbatim>\<open>wakeup_sub\<close>: queue a null frame on the owner of slot \<open>a\<close>, if there is
  one.  The source takes the owner's lock with a trylock and backs off until it
  gets it; the model is sequential, so the lock is free at the first attempt.
\<close>

definition wakeup_sub :: "world \<Rightarrow> pvt_ptr \<Rightarrow> nat \<Rightarrow> world" where
  "wakeup_sub w p a =
     (case owner (sub_of w p a) of
        Some c \<Rightarrow> ast_queue_frame w c ast_null_frame
      | None \<Rightarrow> w)"

text \<open>
  \<^verbatim>\<open>swap_subs\<close>, statement by statement.  \<open>swap_fields\<close> is its six
  assignments, each reading the world left by the one before it;
  \<open>rehome_fd\<close> is one \<^verbatim>\<open>if (p->subs[x].owner) ast_channel_set_fd(...)\<close>.
\<close>

definition swap_fields :: "world \<Rightarrow> pvt_ptr \<Rightarrow> nat \<Rightarrow> nat \<Rightarrow> world" where
  "swap_fields w p a b =
     (let tchan = chan (sub_of w p a);
          towner = owner (sub_of w p a);
          tinthreeway = inthreeway (sub_of w p a);
          w1 = upd_sub w p a (\<lambda>s. s\<lparr>chan := chan (sub_of w p b)\<rparr>);
          w2 = upd_sub w1 p a (\<lambda>s. s\<lparr>owner := owner (sub_of w1 p b)\<rparr>);
          w3 = upd_sub w2 p a (\<lambda>s. s\<lparr>inthreeway := inthreeway (sub_of w2 p b)\<rparr>);
          w4 = upd_sub w3 p b (\<lambda>s. s\<lparr>chan := tchan\<rparr>);
          w5 = upd_sub w4 p b (\<lambda>s. s\<lparr>owner := towner\<rparr>)
      in upd_sub w5 p b (\<lambda>s. s\<lparr>inthreeway := tinthreeway\<rparr>))"

definition rehome_fd :: "world \<Rightarrow> pvt_ptr \<Rightarrow> nat \<Rightarrow> world" where
  "rehome_fd w p x =
     (case owner (sub_of w p x) of
        Some c \<Rightarrow> ast_channel_set_fd w c 0 (dfd (sub_of w p x))
      | None \<Rightarrow> w)"

definition swap_subs :: "world \<Rightarrow> pvt_ptr \<Rightarrow> nat \<Rightarrow> nat \<Rightarrow> world" where
  "swap_subs w p a b =
     (let w6 = swap_fields w p a b;
          w7 = rehome_fd w6 p a;
          w8 = rehome_fd w7 p b;
          w9 = wakeup_sub w8 p a
      in wakeup_sub w9 p b)"

text \<open>\<^verbatim>\<open>dahdi_close\<close>: only a positive descriptor is closed.\<close>

definition dahdi_close :: "world \<Rightarrow> int \<Rightarrow> world" where
  "dahdi_close w fd = (if fd > 0 then emit w (CLOSE fd) else w)"

text \<open>\<^verbatim>\<open>unalloc_sub\<close>: the return value and the world it leaves.\<close>

definition unalloc_sub :: "world \<Rightarrow> pvt_ptr \<Rightarrow> nat \<Rightarrow> int \<times> world" where
  "unalloc_sub w p x =
     (if x = 0 then
        (- 1, emit w (LOG_WARNING ''Trying to unalloc the real channel?!?''))
      else
        let w1 = (if dfd (sub_of w p x) > - 1 then dahdi_close w (dfd (sub_of w p x)) else w);
            w2 = upd_sub w1 p x (\<lambda>s. s\<lparr>dfd := - 1\<rparr>);
            w3 = upd_sub w2 p x (\<lambda>s. s\<lparr>linear := False\<rparr>);
            w4 = upd_sub w3 p x (\<lambda>s. s\<lparr>chan := 0\<rparr>);
            w5 = upd_sub w4 p x (\<lambda>s. s\<lparr>owner := None\<rparr>);
            w6 = upd_sub w5 p x (\<lambda>s. s\<lparr>inthreeway := False\<rparr>);
            w7 = upd_pvt w6 p (\<lambda>P. P\<lparr>polarity := POLARITY_IDLE\<rparr>);
            w8 = upd_sub w7 p x (\<lambda>s. s\<lparr>curconf := zero_confinfo\<rparr>)
        in (0, w8))"

section \<open>Linking lines\<close>

text \<open>
  The loop of \<^verbatim>\<open>dahdi_link\<close>: from index \<open>x\<close>, the first free entry of
  the master's slave array, or \<open>MAX_SLAVES\<close> when the loop runs to its end
  without a \<^verbatim>\<open>break\<close>.
\<close>

function link_scan :: "(nat \<Rightarrow> pvt_ptr option) \<Rightarrow> nat \<Rightarrow> nat" where
  "link_scan sl x =
     (if x < MAX_SLAVES then (if sl x = None then x else link_scan sl (Suc x)) else x)"
  by pat_completeness auto
termination
  by (relation "measure (\<lambda>(sl, x). MAX_SLAVES - x)") auto

declare link_scan.simps [simp del]

text \<open>\<^verbatim>\<open>dahdi_link(slave, master)\<close>.\<close>

definition dahdi_link :: "world \<Rightarrow> pvt_ptr option \<Rightarrow> pvt_ptr option \<Rightarrow> world" where
  "dahdi_link w slave_p master_p =
     (case (slave_p, master_p) of
        (Some s, Some m) \<Rightarrow>
          let x = link_scan (slaves (pvts w m)) 0;
              w1 = (if x < MAX_SLAVES
                    then upd_pvt w m (\<lambda>P. P\<lparr>slaves := (slaves P)(x := Some s)\<rparr>)
                    else w);
              w2 = (if x \<ge> MAX_SLAVES
                    then upd_pvt (emit w1 (LOG_WARNING ''Replacing slave with new slave''))
                           m (\<lambda>P. P\<lparr>slaves := (slaves P)(MAX_SLAVES - 1 := Some s)\<rparr>)
                    else w1);
              w3 = (if master (pvts w2 s) \<noteq> None
                    then emit w2 (LOG_WARNING ''Replacing master with new master'')
                    else w2)
          in upd_pvt w3 s (\<lambda>P. P\<lparr>master := Some m\<rparr>)
      | _ \<Rightarrow> emit w (LOG_WARNING ''Tried to link to/from NULL??''))"

section \<open>Concrete lines\<close>

text \<open>
  An unallocated sub-channel, a line as \<^verbatim>\<open>mkintf\<close> leaves it (no
  conference, no owner), an idle channel, and a world of such lines.
\<close>

definition idle_sub :: dahdi_subchannel where
  "idle_sub = \<lparr>dfd = - 1, owner = None, chan = 0, needringing = False, needbusy = False,
     needcongestion = False, needcallerid = False, needanswer = False, needflash = False,
     needhold = False, needunhold = False, linear = False, inthreeway = False,
     curconf = zero_confinfo\<rparr>"

definition idle_pvt :: dahdi_pvt where
  "idle_pvt = \<lparr>powner = None, subs = (\<lambda>_. idle_sub), slaves = (\<lambda>_. None), master = None,
     bearer = None,     inconference = False, sig = SIG_PSEUDO, radio = 0, outsigmod = None, oprmode = 0,
     channel = 0,
     law = 0, confno_p = - 1, polarity = 0, echocanon = False, digital = False,
     echocancel_taps = 0, echotraining = 0, dialing = False, dialednone = False,
     outgoing = False, pulsedial = False, transfer = False, transfertobusy = False,
     threewaycalling = False, hanguponpolarityswitch = False, inalarm = False,
     proceeding = False, ringt = 0,
     callwaitcas = 0, callwaitingrepeat = 0, cidcwexpire = 0, onhooktime = 0, msgstate = 0,
     flashtime = 0, polaritydelaytv = 0, dialdest = []\<rparr>"

definition idle_chan :: ast_channel where
  "idle_chan = \<lparr>state = AST_STATE_DOWN, fds = (\<lambda>_. - 1), tech_pvt = None, pbx = False,
     softhangup = 0, bridged = None, readq = [], written = []\<rparr>"

definition idle_world :: world where
  "idle_world = \<lparr>pvts = (\<lambda>_. idle_pvt), chans = (\<lambda>_. idle_chan), trace = []\<rparr>"

text \<open>
  Line 1 with a call on its Real sub-channel (descriptor 5, owned by channel 10)
  and a second call on its ThreeWay sub-channel (descriptor 8, owned by
  channel 11).
\<close>

definition two_call_line :: dahdi_pvt where
  "two_call_line = idle_pvt\<lparr>powner := Some 10, channel := 1,
     subs := (\<lambda>_. idle_sub)
       (0 := idle_sub\<lparr>dfd := 5, owner := Some 10, chan := 1\<rparr>,
        2 := idle_sub\<lparr>dfd := 8, owner := Some 11, chan := 40\<rparr>)\<rparr>"

definition two_call_world :: world where
  "two_call_world = idle_world\<lparr>pvts := (\<lambda>_. idle_pvt)(1 := two_call_line),
     chans := (\<lambda>_. idle_chan)
       (10 := idle_chan\<lparr>state := AST_STATE_UP, fds := (\<lambda>_. - 1)(0 := 5), tech_pvt := Some 1\<rparr>,
        11 := idle_chan\<lparr>state := AST_STATE_UP, fds := (\<lambda>_. - 1)(0 := 8), tech_pvt := Some 1\<rparr>)\<rparr>"

text \<open>Line 2 with line 1 as its only slave, and line 2 with all four slave slots taken.\<close>

definition linked_world :: world where
  "linked_world = idle_world\<lparr>pvts := (\<lambda>_. idle_pvt)
     (1 := idle_pvt\<lparr>channel := 1, master := Some 2\<rparr>,
      2 := idle_pvt\<lparr>channel := 2, slaves := (\<lambda>_. None)(0 := Some 1)\<rparr>)\<rparr>"

definition full_world :: world where
  "full_world = idle_world\<lparr>pvts := (\<lambda>_. idle_pvt)
     (2 := idle_pvt\<lparr>channel := 2,
            slaves := (\<lambda>_. None)(0 := Some 4, 1 := Some 5, 2 := Some 6, 3 := Some 7)\<rparr>,
      7 := idle_pvt\<lparr>channel := 7, master := Some 2\<rparr>)\<rparr>"

section \<open>Conference topology\<close>

text \<open>
  Conference modes and flags of the DAHDI kernel interface (\<^verbatim>\<open>dahdi/user.h\<close>,
  a header outside this repository), with the values of that header.
\<close>

definition DAHDI_CONF_CONF :: int where "DAHDI_CONF_CONF = 4"
definition DAHDI_CONF_REALANDPSEUDO :: int where "DAHDI_CONF_REALANDPSEUDO = 8"
definition DAHDI_CONF_DIGITALMON :: int where "DAHDI_CONF_DIGITALMON = 9"
definition DAHDI_CONF_LISTENER :: int where "DAHDI_CONF_LISTENER = 256"
definition DAHDI_CONF_TALKER :: int where "DAHDI_CONF_TALKER = 512"
definition DAHDI_CONF_PSEUDO_LISTENER :: int where "DAHDI_CONF_PSEUDO_LISTENER = 1024"
definition DAHDI_CONF_PSEUDO_TALKER :: int where "DAHDI_CONF_PSEUDO_TALKER = 2048"

text \<open>
  The DAHDI device is outside the program.  \<open>setconf k n fd zi\<close> is what
  \<^verbatim>\<open>ioctl(fd, DAHDI_SETCONF, &zi)\<close> does when \<open>n\<close> entries are in the
  trace: its return value and the contents of \<^verbatim>\<open>zi\<close> after the call (the
  driver writes the structure back).  \<open>ioctl_ret k n\<close> is the return value of
  any other call to the outside made at that point, and \<open>ioctl_errno k n\<close> the
  value of \<^verbatim>\<open>errno\<close> it leaves when it fails.
\<close>

datatype errno = EINPROGRESS | EBUSY | EINTR | EOTHER

record kernel =
  setconf :: "nat \<Rightarrow> int \<Rightarrow> dahdi_confinfo \<Rightarrow> int \<times> dahdi_confinfo"
  ioctl_ret :: "nat \<Rightarrow> int"
  ioctl_errno :: "nat \<Rightarrow> errno"

text \<open>
  \<^verbatim>\<open>GET_CHANNEL(p)\<close>, in the variant compiled with PRI support; without a
  bearer it is the one compiled without.
\<close>

definition GET_CHANNEL :: "world \<Rightarrow> pvt_ptr \<Rightarrow> int" where
  "GET_CHANNEL w p =
     (case bearer (pvts w p) of Some b \<Rightarrow> channel (pvts w b) | None \<Rightarrow> channel (pvts w p))"

text \<open>
  A \<^verbatim>\<open>struct dahdi_subchannel *\<close> is a line and a slot of its array:
  \<^verbatim>\<open>&p->subs[x]\<close> is \<open>(p, x)\<close>.
\<close>

type_synonym sub_ptr = "pvt_ptr \<times> nat"

definition csub :: "world \<Rightarrow> sub_ptr \<Rightarrow> dahdi_subchannel" where
  "csub w c = sub_of w (fst c) (snd c)"

text \<open>The request \<^verbatim>\<open>zi\<close> that \<^verbatim>\<open>conf_add\<close> builds before it compares.\<close>

definition conf_add_zi :: "world \<Rightarrow> pvt_ptr \<Rightarrow> nat \<Rightarrow> int \<Rightarrow> dahdi_confinfo" where
  "conf_add_zi w p index slavechannel =
     (if slavechannel > 0 then
        zero_confinfo\<lparr>confmode := DAHDI_CONF_DIGITALMON, confno := slavechannel\<rparr>
      else
        zero_confinfo\<lparr>confmode :=
            (if index = 0 then
               DAHDI_CONF_REALANDPSEUDO OR DAHDI_CONF_TALKER OR DAHDI_CONF_LISTENER OR
               DAHDI_CONF_PSEUDO_TALKER OR DAHDI_CONF_PSEUDO_LISTENER
             else DAHDI_CONF_CONF OR DAHDI_CONF_TALKER OR DAHDI_CONF_LISTENER),
          confno := confno_p (pvts w p)\<rparr>)"

definition conf_add ::
  "kernel \<Rightarrow> world \<Rightarrow> pvt_ptr \<Rightarrow> sub_ptr \<Rightarrow> nat \<Rightarrow> int \<Rightarrow> int \<times> world" where
  "conf_add k w p c index slavechannel =
     (let zi = conf_add_zi w p index slavechannel in
      if confno zi = confno (curconf (csub w c)) \<and> confmode zi = confmode (curconf (csub w c))
        then (0, w)
      else if dfd (csub w c) < 0 then (0, w)
      else
        let r = setconf k (length (trace w)) (dfd (csub w c)) zi;
            w1 = emit w (SETCONF (dfd (csub w c)) zi)
        in if fst r \<noteq> 0 then (- 1, emit w1 (LOG_WARNING ''Failed to add to conference''))
           else
             let w2 = (if slavechannel < 1
                       then upd_pvt w1 p (\<lambda>P. P\<lparr>confno_p := confno (snd r)\<rparr>)
                       else w1)
             in (0, upd_sub w2 (fst c) (snd c) (\<lambda>s. s\<lparr>curconf := snd r\<rparr>)))"

definition isourconf :: "world \<Rightarrow> pvt_ptr \<Rightarrow> sub_ptr \<Rightarrow> bool" where
  "isourconf w p c =
     (if channel (pvts w p) = confno (curconf (csub w c)) \<and>
         confmode (curconf (csub w c)) = DAHDI_CONF_DIGITALMON then True
      else if confno_p (pvts w p) > 0 \<and> confno_p (pvts w p) = confno (curconf (csub w c)) \<and>
         (confmode (curconf (csub w c)) AND DAHDI_CONF_TALKER) \<noteq> 0 then True
      else False)"

definition conf_del :: "kernel \<Rightarrow> world \<Rightarrow> pvt_ptr \<Rightarrow> sub_ptr \<Rightarrow> nat \<Rightarrow> int \<times> world" where
  "conf_del k w p c index =
     (if dfd (csub w c) < 0 \<or> \<not> isourconf w p c then (0, w)
      else
        let zi = zero_confinfo;
            r = setconf k (length (trace w)) (dfd (csub w c)) zi;
            w1 = emit w (SETCONF (dfd (csub w c)) zi)
        in if fst r \<noteq> 0 then (- 1, emit w1 (LOG_WARNING ''Failed to drop from conference''))
           else (0, upd_sub w1 (fst c) (snd c) (\<lambda>s. s\<lparr>curconf := snd r\<rparr>)))"

text \<open>
  \<^verbatim>\<open>isslavenative\<close>.  Its first loop runs over the three sub-channels; its
  second loop, over the slave slots \<open>xs\<close> still to visit, stops at the second
  slave it meets.  The result is the flag and the pointer stored through
  \<^verbatim>\<open>out\<close>.
\<close>

fun threeway_scan :: "world \<Rightarrow> pvt_ptr \<Rightarrow> nat list \<Rightarrow> bool \<Rightarrow> bool" where
  "threeway_scan w p [] useslavenative = useslavenative"
| "threeway_scan w p (x # xs) useslavenative =
     threeway_scan w p xs
       (if dfd (sub_of w p x) > - 1 \<and> inthreeway (sub_of w p x) then False else useslavenative)"

fun slave_scan ::
  "(nat \<Rightarrow> pvt_ptr option) \<Rightarrow> nat list \<Rightarrow> pvt_ptr option \<Rightarrow> bool \<Rightarrow> pvt_ptr option \<times> bool" where
  "slave_scan sl [] slave useslavenative = (slave, useslavenative)"
| "slave_scan sl (x # xs) slave useslavenative =
     (case sl x of
        None \<Rightarrow> slave_scan sl xs slave useslavenative
      | Some q \<Rightarrow>
          (case slave of
             Some _ \<Rightarrow> (None, False)
           | None \<Rightarrow> slave_scan sl xs (Some q) useslavenative))"

definition isslavenative :: "world \<Rightarrow> pvt_ptr \<Rightarrow> bool \<times> pvt_ptr option" where
  "isslavenative w p =
     (let u1 = threeway_scan w p [0..<3] True;
          (slave, u2) = (if u1 then slave_scan (slaves (pvts w p)) [0..<MAX_SLAVES] None u1
                         else (None, u1))
      in case slave of
           None \<Rightarrow> (False, None)
         | Some q \<Rightarrow> if law (pvts w q) \<noteq> law (pvts w p) then (False, None) else (u2, Some q))"

text \<open>
  \<^verbatim>\<open>update_conf\<close>: the bodies of its two loops, each taking and returning
  the world and the counter \<^verbatim>\<open>needconf\<close>, and the function itself (it always
  returns 0).
\<close>

definition conf_sub_step :: "kernel \<Rightarrow> pvt_ptr \<Rightarrow> nat \<Rightarrow> world \<times> int \<Rightarrow> world \<times> int" where
  "conf_sub_step k p x wn =
     (let w = fst wn; needconf = snd wn in
      if dfd (sub_of w p x) > - 1 \<and> inthreeway (sub_of w p x)
        then (snd (conf_add k w p (p, x) x 0), needconf + 1)
      else (snd (conf_del k w p (p, x) x), needconf))"

definition conf_slave_step ::
  "kernel \<Rightarrow> pvt_ptr \<Rightarrow> bool \<Rightarrow> nat \<Rightarrow> world \<times> int \<Rightarrow> world \<times> int" where
  "conf_slave_step k p useslavenative x wn =
     (let w = fst wn; needconf = snd wn in
      case slaves (pvts w p) x of
        None \<Rightarrow> (w, needconf)
      | Some q \<Rightarrow>
          if useslavenative
            then (snd (conf_add k w p (q, SUB_REAL) SUB_REAL (GET_CHANNEL w p)), needconf)
          else (snd (conf_add k w p (q, SUB_REAL) SUB_REAL 0), needconf + 1))"

definition update_conf :: "kernel \<Rightarrow> world \<Rightarrow> pvt_ptr \<Rightarrow> world" where
  "update_conf k w p =
     (let (useslavenative, slave) = isslavenative w p;
          wn1 = fold (conf_sub_step k p) [0..<3] (w, 0);
          wn2 = fold (conf_slave_step k p useslavenative) [0..<MAX_SLAVES] wn1;
          w2 = fst wn2;
          wn3 = (if inconference (pvts w2 p) \<and> \<not> inthreeway (sub_of w2 p SUB_REAL) then
                   if useslavenative then
                     (case slave of
                        Some q \<Rightarrow>
                          (snd (conf_add k w2 p (p, SUB_REAL) SUB_REAL (GET_CHANNEL w2 q)), snd wn2)
                      | None \<Rightarrow> wn2)
                   else (snd (conf_add k w2 p (p, SUB_REAL) SUB_REAL 0), snd wn2 + 1)
                 else wn2);
          w3 = fst wn3;
          w4 = (case master (pvts w3 p) of
                  Some m \<Rightarrow>
                    if fst (isslavenative w3 m)
                      then snd (conf_add k w3 m (p, SUB_REAL) SUB_REAL (GET_CHANNEL w3 m))
                    else snd (conf_add k w3 m (p, SUB_REAL) SUB_REAL 0)
                | None \<Rightarrow> w3)
      in if snd wn3 = 0 then upd_pvt w4 p (\<lambda>P. P\<lparr>confno_p := - 1\<rparr>) else w4)"

text \<open>
  What the conference functions never write: a line structure with its
  conference number and the \<open>curconf\<close> of its sub-channels blanked.
\<close>

definition fixed_part :: "dahdi_pvt \<Rightarrow> dahdi_pvt" where
  "fixed_part P = P\<lparr>confno_p := 0, subs := (\<lambda>y. (subs P y)\<lparr>curconf := zero_confinfo\<rparr>)\<rparr>"

definition same_fixed :: "world \<Rightarrow> world \<Rightarrow> bool" where
  "same_fixed w w' = (chans w' = chans w \<and> (\<forall>q. fixed_part (pvts w' q) = fixed_part (pvts w q)))"


text \<open>A driver that accepts every request and leaves mode and number as asked.\<close>

definition accepting :: "kernel \<Rightarrow> bool" where
  "accepting k =
     (\<forall>n fd z. fst (setconf k n fd z) = 0 \<and> confmode (snd (setconf k n fd z)) = confmode z \<and>
        (confno z = - 1 \<or> confno (snd (setconf k n fd z)) = confno z))"

text \<open>
  A driver that accepts every request and hands out conference \<open>N\<close> when asked
  for a new one (\<^verbatim>\<open>confno = -1\<close>), and a driver that refuses every request.
\<close>

definition echo_kernel :: "int \<Rightarrow> kernel" where
  "echo_kernel N =
     \<lparr>setconf = (\<lambda>n fd z. (0, z\<lparr>confno := (if confno z = - 1 then N else confno z)\<rparr>)),
      ioctl_ret = (\<lambda>n. 0), ioctl_errno = (\<lambda>n. EOTHER)\<rparr>"




section \<open>Call lifecycle\<close>

text \<open>
  A call to the outside whose result the driver reads: the value the
  environment returns at this point of the trace, and the world with the call
  recorded.
\<close>

definition devcall :: "kernel \<Rightarrow> world \<Rightarrow> hw_call \<Rightarrow> int \<times> world" where
  "devcall k w a = (ioctl_ret k (length (trace w)), emit w a)"

definition ast_setstate :: "world \<Rightarrow> chan_ptr \<Rightarrow> ast_state \<Rightarrow> world" where
  "ast_setstate w c s = upd_chan w c (\<lambda>C. C\<lparr>state := s\<rparr>)"

text \<open>\<^verbatim>\<open>dahdi_get_index\<close>: the index, and the world with the warning if any.\<close>

definition dahdi_get_index :: "world \<Rightarrow> chan_ptr \<Rightarrow> pvt_ptr \<Rightarrow> bool \<Rightarrow> int \<times> world" where
  "dahdi_get_index w ast p nullok =
     (if owner (sub_of w p SUB_REAL) = Some ast then (0, w)
      else if owner (sub_of w p SUB_CALLWAIT) = Some ast then (1, w)
      else if owner (sub_of w p SUB_THREEWAY) = Some ast then (2, w)
      else (- 1, if \<not> nullok
                 then emit w (LOG_WARNING ''Unable to get index, and nullok is not asserted'')
                 else w))"

definition dahdi_set_hook :: "kernel \<Rightarrow> world \<Rightarrow> int \<Rightarrow> hookstate \<Rightarrow> int \<times> world" where
  "dahdi_set_hook k w fd hs =
     (let r = devcall k w (HOOK fd hs) in
      if fst r < 0 then
        if ioctl_errno k (length (trace w)) = EINPROGRESS then (0, snd r)
        else (fst r, emit (snd r) (LOG_WARNING ''DAHDI hook failed''))
      else r)"

definition tone_zone_play_tone :: "kernel \<Rightarrow> world \<Rightarrow> int \<Rightarrow> tone \<Rightarrow> int \<times> world" where
  "tone_zone_play_tone k w fd t = devcall k w (TONE fd t)"

definition dahdi_enable_ec :: "kernel \<Rightarrow> world \<Rightarrow> pvt_ptr \<Rightarrow> world" where
  "dahdi_enable_ec k w p =
     (if echocanon (pvts w p) then w
      else if digital (pvts w p) then w
      else if echocancel_taps (pvts w p) \<noteq> 0 then
        let w1 = (if sig (pvts w p) \<in> {SIG_BRI, SIG_BRI_PTMP, SIG_PRI, SIG_SS7} then
                    let r = devcall k w (AUDIOMODE (dfd (sub_of w p SUB_REAL))) in
                    if fst r \<noteq> 0
                      then emit (snd r) (LOG_WARNING ''Unable to enable audio mode'')
                    else snd r
                  else w);
            r2 = devcall k w1 (ECHOCANCEL (dfd (sub_of w1 p SUB_REAL)) (echocancel_taps (pvts w1 p)))
        in if fst r2 \<noteq> 0
             then emit (snd r2) (LOG_WARNING ''Unable to enable echo cancellation'')
           else upd_pvt (snd r2) p (\<lambda>P. P\<lparr>echocanon := True\<rparr>)
      else w)"

definition dahdi_train_ec :: "kernel \<Rightarrow> world \<Rightarrow> pvt_ptr \<Rightarrow> world" where
  "dahdi_train_ec k w p =
     (if echocanon (pvts w p) \<and> echotraining (pvts w p) \<noteq> 0 then
        let r = devcall k w (ECHOTRAIN (dfd (sub_of w p SUB_REAL)) (echotraining (pvts w p))) in
        if fst r \<noteq> 0
          then emit (snd r) (LOG_WARNING ''Unable to request echo training'')
        else snd r
      else w)"

definition dahdi_disable_ec :: "kernel \<Rightarrow> world \<Rightarrow> pvt_ptr \<Rightarrow> world" where
  "dahdi_disable_ec k w p =
     (let w1 = (if echocanon (pvts w p) then
                  let r = devcall k w (ECHOCANCEL (dfd (sub_of w p SUB_REAL)) 0) in
                  if fst r \<noteq> 0
                    then emit (snd r) (LOG_WARNING ''Unable to disable echo cancellation'')
                  else snd r
                else w)
      in upd_pvt w1 p (\<lambda>P. P\<lparr>echocanon := False\<rparr>))"

text \<open>
  \<^verbatim>\<open>dahdi_call\<close>.  The result is \<open>None\<close> where the C code would
  dereference a NULL \<^verbatim>\<open>tech_pvt\<close>.  \<open>dial\<close> stands for the
  \<^verbatim>\<open>switch (mysig)\<close> that ends the function and does the dialling for each
  signalling style; it receives the world, the channel and the destination.
  \<^verbatim>\<open>ast_copy_string\<close> into the 256-byte \<^verbatim>\<open>dialdest\<close> keeps 255 characters.
\<close>

definition dahdi_call ::
  "kernel \<Rightarrow> (world \<Rightarrow> chan_ptr \<Rightarrow> string \<Rightarrow> (int \<times> world) option) \<Rightarrow>
   world \<Rightarrow> chan_ptr \<Rightarrow> string \<Rightarrow> (int \<times> world) option" where
  "dahdi_call k dial w ast rdest =
     (case tech_pvt (chans w ast) of
        None \<Rightarrow> None
      | Some p \<Rightarrow>
          let dest = take 255 rdest;
              w1 = upd_pvt w p (\<lambda>P. P\<lparr>dialdest := take 255 rdest\<rparr>)
          in if state (chans w1 ast) = AST_STATE_BUSY then
               Some (0, upd_sub w1 p SUB_REAL (\<lambda>s. s\<lparr>needbusy := True\<rparr>))
             else if state (chans w1 ast) \<noteq> AST_STATE_DOWN \<and>
                     state (chans w1 ast) \<noteq> AST_STATE_RESERVED then
               Some (- 1, emit w1 (LOG_WARNING ''dahdi_call called, neither down nor reserved''))
             else
               let w2 = upd_pvt w1 p (\<lambda>P. P\<lparr>dialednone := False\<rparr>) in
               if radio (pvts w2 p) \<noteq> 0 \<or> oprmode (pvts w2 p) < 0 then
                 Some (0, ast_setstate w2 ast AST_STATE_UP)
               else
                 let r = devcall k w2 (FLUSH (dfd (sub_of w2 p SUB_REAL)));
                     w3 = (if fst r \<noteq> 0
                           then emit (snd r) (LOG_WARNING ''Unable to flush input'')
                           else snd r);
                     w4 = upd_pvt w3 p (\<lambda>P. P\<lparr>outgoing := True\<rparr>);
                     w5 = emit w4 (SET_GAIN (dfd (sub_of w4 p SUB_REAL)))
                 in dial w5 ast dest)"

text \<open>
  The test \<^verbatim>\<open>p->sig & __DAHDI_SIG_FXS\<close>: the signalling styles that the DAHDI
  header builds from that bit.
\<close>

definition has_FXS_bit :: "signalling \<Rightarrow> bool" where
  "has_FXS_bit s = (s \<in> {SIG_FXSLS, SIG_FXSGS, SIG_FXSKS, SIG_GR303FXSKS})"

text \<open>
  \<^verbatim>\<open>dahdi_answer\<close>, called at time \<open>now\<close> (\<^verbatim>\<open>ast_tvnow()\<close>, in
  milliseconds).  Its three groups of cases are \<open>answer_analog\<close> (the
  FXS, E and M, feature-group, SF and FXO styles), \<open>answer_proto\<close> (PRI, BRI
  and SS7: the protocol engine is grabbed and asked to answer; \<^verbatim>\<open>pri_grab\<close>
  and \<^verbatim>\<open>ss7_grab\<close> wait for the lock and always return 0, so the branch
  that logs a failed grab is never taken) and the rest.
\<close>

definition answer_analog ::
  "kernel \<Rightarrow> int \<Rightarrow> world \<Rightarrow> chan_ptr \<Rightarrow> pvt_ptr \<Rightarrow> nat \<Rightarrow> ast_state \<Rightarrow> int \<times> world" where
  "answer_analog k now w ast p index oldstate =
     (let w0 = (if sig (pvts w p) \<in> {SIG_FXSLS, SIG_FXSGS, SIG_FXSKS}
                then upd_pvt w p (\<lambda>P. P\<lparr>ringt := 0\<rparr>) else w);
          w1 = (if hanguponpolarityswitch (pvts w0 p)
                then upd_pvt w0 p (\<lambda>P. P\<lparr>polaritydelaytv := now\<rparr>) else w0);
          r = dahdi_set_hook k w1 (dfd (sub_of w1 p SUB_REAL)) DAHDI_OFFHOOK;
          w2 = snd (tone_zone_play_tone k (snd r) (dfd (sub_of (snd r) p index)) TONE_STOP);
          w3 = upd_pvt w2 p (\<lambda>P. P\<lparr>dialing := False\<rparr>);
          w4 = (if index = SUB_REAL \<and> inthreeway (sub_of w3 p SUB_THREEWAY) then
                  if oldstate = AST_STATE_RINGING then
                    let wa = snd (tone_zone_play_tone k w3 (dfd (sub_of w3 p SUB_THREEWAY)) TONE_STOP);
                        wb = swap_subs wa p SUB_THREEWAY SUB_REAL
                    in upd_pvt wb p (\<lambda>P. P\<lparr>powner := owner (sub_of wb p SUB_REAL)\<rparr>)
                  else w3
                else w3);
          w5 = (if has_FXS_bit (sig (pvts w4 p))
                then dahdi_train_ec k (dahdi_enable_ec k w4 p) p else w4)
      in (fst r, w5))"

definition answer_proto :: "kernel \<Rightarrow> world \<Rightarrow> pvt_ptr \<Rightarrow> int \<times> world" where
  "answer_proto k w p =
     (let w1 = upd_pvt w p (\<lambda>P. P\<lparr>proceeding := True, dialing := False\<rparr>)
      in devcall k w1 PROTO_ANSWER)"

definition dahdi_answer ::
  "kernel \<Rightarrow> int \<Rightarrow> world \<Rightarrow> chan_ptr \<Rightarrow> (int \<times> world) option" where
  "dahdi_answer k now w ast =
     (case tech_pvt (chans w ast) of
        None \<Rightarrow> None
      | Some p \<Rightarrow>
          let oldstate = state (chans w ast);
              w1 = ast_setstate w ast AST_STATE_UP;
              r = dahdi_get_index w1 ast p False;
              index = (if fst r < 0 then SUB_REAL else nat (fst r));
              w2 = snd r
          in if radio (pvts w2 p) \<noteq> 0 \<or> oprmode (pvts w2 p) < 0 then Some (0, w2)
             else if sig (pvts w2 p) \<in>
                 {SIG_FXSLS, SIG_FXSGS, SIG_FXSKS, SIG_EM, SIG_EM_E1, SIG_EMWINK, SIG_FEATD,
                  SIG_FEATDMF, SIG_FEATDMF_TA, SIG_E911, SIG_FGC_CAMA, SIG_FGC_CAMAMF, SIG_FEATB,
                  SIG_SF, SIG_SFWINK, SIG_SF_FEATD, SIG_SF_FEATDMF, SIG_SF_FEATB,
                  SIG_FXOLS, SIG_FXOGS, SIG_FXOKS}
               then Some (answer_analog k now w2 ast p index oldstate)
             else if sig (pvts w2 p) \<in> {SIG_BRI, SIG_BRI_PTMP, SIG_PRI, SIG_SS7}
               then Some (answer_proto k w2 p)
             else if sig (pvts w2 p) = SIG_PSEUDO then Some (0, w2)
             else Some (- 1, emit w2 (LOG_WARNING ''Do not know how to answer signalling'')))"

text \<open>
  Two worlds with the same channels whose lines differ at most in the state of
  the echo canceller.
\<close>

definition same_but_ec :: "world \<Rightarrow> world \<Rightarrow> bool" where
  "same_but_ec w w' =
     (chans w' = chans w \<and> (\<forall>q. (pvts w' q)\<lparr>echocanon := False\<rparr> = (pvts w q)\<lparr>echocanon := False\<rparr>))"

text \<open>
  A kewlstart line in a three-way call whose Real leg (channel 10) is still
  ringing: both legs are flagged in-three-way.
\<close>

definition ringing_threeway_world :: world where
  "ringing_threeway_world = idle_world\<lparr>pvts := (\<lambda>_. idle_pvt)
       (4 := idle_pvt\<lparr>powner := Some 10, channel := 4, sig := SIG_FXOKS,
          subs := (\<lambda>_. idle_sub)
            (0 := idle_sub\<lparr>dfd := 5, owner := Some 10, chan := 4, inthreeway := True\<rparr>,
             2 := idle_sub\<lparr>dfd := 8, owner := Some 11, chan := 40, inthreeway := True\<rparr>)\<rparr>),
     chans := (\<lambda>_. idle_chan)
       (10 := idle_chan\<lparr>state := AST_STATE_RINGING, fds := (\<lambda>_. - 1)(0 := 5), tech_pvt := Some 4\<rparr>,
        11 := idle_chan\<lparr>state := AST_STATE_UP, fds := (\<lambda>_. - 1)(0 := 8), tech_pvt := Some 4\<rparr>)\<rparr>"

text \<open>Line 4 with a call on its Real sub-channel whose channel 10 is in state Busy.\<close>

definition busy_world :: world where
  "busy_world = idle_world\<lparr>pvts := (\<lambda>_. idle_pvt)
       (4 := idle_pvt\<lparr>powner := Some 10, channel := 4, sig := SIG_FXOKS,
          subs := (\<lambda>_. idle_sub)(0 := idle_sub\<lparr>dfd := 5, owner := Some 10, chan := 4\<rparr>)\<rparr>),
     chans := (\<lambda>_. idle_chan)
       (10 := idle_chan\<lparr>state := AST_STATE_BUSY, fds := (\<lambda>_. - 1)(0 := 5), tech_pvt := Some 4\<rparr>)\<rparr>"

section \<open>Native bridge loop\<close>



datatype bridge_result =
  AST_BRIDGE_COMPLETE | AST_BRIDGE_FAILED | AST_BRIDGE_FAILED_NOWARN | AST_BRIDGE_RETRY











section \<open>Signalling events: on-hook and flash on FXO-signalled lines\<close>

text \<open>
  Constants of the Asterisk core headers (outside this repository), with the
  values of those headers.
\<close>

definition AST_SOFTHANGUP_DEV :: int where "AST_SOFTHANGUP_DEV = 1"
definition AST_CONTROL_HANGUP :: int where "AST_CONTROL_HANGUP = 1"
definition AST_CONTROL_RADIO_UNKEY :: int where "AST_CONTROL_RADIO_UNKEY = 13"
definition AST_CONTROL_HOLD :: int where "AST_CONTROL_HOLD = 16"
definition AST_CONTROL_UNHOLD :: int where "AST_CONTROL_UNHOLD = 17"

text \<open>
  Core functions the handlers call: \<^verbatim>\<open>ast_queue_control\<close> (and
  \<^verbatim>\<open>ast_queue_control_data\<close>) queue a control frame on a channel,
  \<^verbatim>\<open>ast_queue_hangup\<close> marks the channel for hang-up and queues a hang-up
  frame, and \<open>soft_hangup_dev\<close> is the statement
  \<^verbatim>\<open>c->_softhangup |= AST_SOFTHANGUP_DEV\<close>.
\<close>

definition ast_queue_control :: "world \<Rightarrow> chan_ptr \<Rightarrow> int \<Rightarrow> world" where
  "ast_queue_control w c ctl = ast_queue_frame w c \<lparr>ftype = AST_FRAME_CONTROL, fsubclass = ctl\<rparr>"

definition soft_hangup_dev :: "world \<Rightarrow> chan_ptr \<Rightarrow> world" where
  "soft_hangup_dev w c = upd_chan w c (\<lambda>C. C\<lparr>softhangup := softhangup C OR AST_SOFTHANGUP_DEV\<rparr>)"

definition ast_queue_hangup :: "world \<Rightarrow> chan_ptr \<Rightarrow> world" where
  "ast_queue_hangup w c = ast_queue_control (soft_hangup_dev w c) c AST_CONTROL_HANGUP"

text \<open>
  \<^verbatim>\<open>dahdi_ring_phone\<close>: the transmit state is put on hook, then the ring is
  requested until the device no longer answers \<^verbatim>\<open>EBUSY\<close> or \<^verbatim>\<open>EINTR\<close>.
  A device that always does keeps the function in its loop: the result is
  \<open>None\<close>.
\<close>

partial_function (option) ring_loop :: "kernel \<Rightarrow> int \<Rightarrow> world \<Rightarrow> world option" where
  "ring_loop k fd w =
     (let r = devcall k w (HOOK fd DAHDI_RING) in
      if fst r \<noteq> 0 then
        (case ioctl_errno k (length (trace w)) of
           EBUSY \<Rightarrow> ring_loop k fd (snd r)
         | EINTR \<Rightarrow> ring_loop k fd (snd r)
         | EINPROGRESS \<Rightarrow> Some (snd r)
         | EOTHER \<Rightarrow> Some (emit (snd r) (LOG_WARNING ''Could not ring the phone'')))
      else Some (snd r))"

definition dahdi_ring_phone :: "kernel \<Rightarrow> world \<Rightarrow> pvt_ptr \<Rightarrow> world option" where
  "dahdi_ring_phone k w p =
     (let w1 = snd (devcall k w (HOOK (dfd (sub_of w p SUB_REAL)) DAHDI_ONHOOK))
      in ring_loop k (dfd (sub_of w1 p SUB_REAL)) w1)"

text \<open>
  \<^verbatim>\<open>attempt_transfer\<close>.  The result is \<open>None\<close> where the C code would
  dereference a NULL owner; \<^verbatim>\<open>ast_bridged_channel\<close> reads the field
  \<open>bridged\<close>.
\<close>

definition attempt_transfer :: "kernel \<Rightarrow> world \<Rightarrow> pvt_ptr \<Rightarrow> (int \<times> world) option" where
  "attempt_transfer k w p =
     (case (owner (sub_of w p SUB_REAL), owner (sub_of w p SUB_THREEWAY)) of
        (Some r, Some t) \<Rightarrow>
          (case bridged (chans w r) of
             Some rb \<Rightarrow>
               let w1 = (if bridged (chans w t) \<noteq> None
                         then ast_queue_control w t AST_CONTROL_UNHOLD else w);
                   w2 = (if state (chans w1 r) = AST_STATE_RINGING
                         then emit w1 (INDICATE_RINGING rb) else w1);
                   w3 = (if state (chans w2 t) = AST_STATE_RING
                         then snd (tone_zone_play_tone k w2 (dfd (sub_of w2 p SUB_THREEWAY))
                                     DAHDI_TONE_RINGTONE)
                         else w2);
                   m = devcall k w3 (MASQUERADE t rb)
               in if fst m \<noteq> 0 then Some (- 1, emit (snd m) (LOG_WARNING ''Unable to masquerade''))
                  else Some (0, snd (unalloc_sub (snd m) p SUB_THREEWAY))
           | None \<Rightarrow>
               (case bridged (chans w t) of
                  Some tb \<Rightarrow>
                    let w1 = ast_queue_control w r AST_CONTROL_UNHOLD;
                        w2 = (if state (chans w1 t) = AST_STATE_RINGING
                              then emit w1 (INDICATE_RINGING tb) else w1);
                        w3 = (if state (chans w2 r) = AST_STATE_RING
                              then snd (tone_zone_play_tone k w2 (dfd (sub_of w2 p SUB_REAL))
                                          DAHDI_TONE_RINGTONE)
                              else w2);
                        m = devcall k w3 (MASQUERADE r tb)
                    in if fst m \<noteq> 0
                         then Some (- 1, emit (snd m) (LOG_WARNING ''Unable to masquerade''))
                       else Some (1, snd (unalloc_sub (swap_subs (snd m) p SUB_THREEWAY SUB_REAL)
                                            p SUB_THREEWAY))
                | None \<Rightarrow> Some (- 1, soft_hangup_dev w t)))
      | _ \<Rightarrow> None)"

text \<open>
  \<^verbatim>\<open>mssinceflash\<close> is an \<^verbatim>\<open>unsigned int\<close>: the difference of the two times
  in milliseconds, reduced modulo \<open>2 ^ 32\<close>.
\<close>

definition mssinceflash :: "int \<Rightarrow> int \<Rightarrow> int" where
  "mssinceflash now flash = (now - flash) mod 2 ^ 32"

text \<open>
  Swap the ThreeWay call into the Real slot, disown the line and ring the
  phone: the three statements the on-hook handler uses twice.
\<close>

definition swap_and_ring :: "kernel \<Rightarrow> world \<Rightarrow> pvt_ptr \<Rightarrow> world option" where
  "swap_and_ring k w p =
     (let w1 = swap_subs w p SUB_THREEWAY SUB_REAL;
          w2 = upd_pvt w1 p (\<lambda>P. P\<lparr>powner := None\<rparr>)
      in dahdi_ring_phone k w2 p)"

text \<open>
  The case \<^verbatim>\<open>SIG_FXOLS\<close>, \<^verbatim>\<open>SIG_FXOGS\<close>, \<^verbatim>\<open>SIG_FXOKS\<close> of the on-hook
  event in \<^verbatim>\<open>dahdi_handle_event\<close>, up to the point where it falls through to
  the default case.  The flag of the result tells whether the case was left
  with \<^verbatim>\<open>break\<close> (the handler then returns its frame) instead.  The model is
  sequential: the lock of the three-way owner is free at the first attempt.
  \<open>now\<close> is the time in milliseconds.
\<close>

definition onhook_threeway ::
  "kernel \<Rightarrow> world \<Rightarrow> chan_ptr \<Rightarrow> pvt_ptr \<Rightarrow> chan_ptr \<Rightarrow> int \<Rightarrow> (bool \<times> world) option" where
  "onhook_threeway k w ast p tw now =
     (if mssinceflash now (flashtime (pvts w p)) < MIN_MS_SINCE_FLASH then
        Some (False, soft_hangup_dev (ast_queue_hangup w tw) tw)
      else if pbx (chans w ast) \<or> state (chans w ast) = AST_STATE_UP then
        if transfer (pvts w p) then
          let w1 = upd_sub w p SUB_REAL (\<lambda>s. s\<lparr>inthreeway := False\<rparr>);
              w2 = upd_sub w1 p SUB_THREEWAY (\<lambda>s. s\<lparr>inthreeway := False\<rparr>)
          in if \<not> transfertobusy (pvts w2 p) \<and> state (chans w2 ast) = AST_STATE_BUSY then
               map_option (Pair False) (swap_and_ring k w2 p)
             else
               (case attempt_transfer k w2 p of
                  None \<Rightarrow> None
                | Some (res, w3) \<Rightarrow>
                    if res < 0 then
                      (case owner (sub_of w3 p SUB_THREEWAY) of
                         None \<Rightarrow> None
                       | Some t \<Rightarrow> Some (False, soft_hangup_dev w3 t))
                    else if res \<noteq> 0 then Some (True, w3)
                    else Some (False, w3))
        else Some (False, soft_hangup_dev w tw)
      else map_option (Pair False) (swap_and_ring k w p))"

text \<open>
  The field \<^verbatim>\<open>onhooktime\<close> is an \<^verbatim>\<open>int\<close> and receives \<^verbatim>\<open>time(NULL)\<close>, a
  \<^verbatim>\<open>time_t\<close> in seconds: the value is reduced to 32 bits, two's complement.
\<close>

definition int_of_time :: "int \<Rightarrow> int" where
  "int_of_time t = (t + 2 ^ 31) mod 2 ^ 32 - 2 ^ 31"

definition onhook_fxo ::
  "kernel \<Rightarrow> world \<Rightarrow> chan_ptr \<Rightarrow> pvt_ptr \<Rightarrow> nat \<Rightarrow> int \<Rightarrow> (bool \<times> world) option" where
  "onhook_fxo k w ast p index now =
     (let w1 = upd_pvt w p (\<lambda>P. P\<lparr>onhooktime := int_of_time (now div 1000), msgstate := - 1\<rparr>) in
      if index = SUB_REAL then
        if owner (sub_of w1 p SUB_CALLWAIT) \<noteq> None then
          let w2 = swap_subs w1 p SUB_CALLWAIT SUB_REAL;
              w3 = snd (unalloc_sub w2 p SUB_CALLWAIT);
              w4 = upd_pvt w3 p (\<lambda>P. P\<lparr>callwaitingrepeat := 0, cidcwexpire := 0, powner := None\<rparr>)
          in (case owner (sub_of w4 p SUB_REAL) of
                None \<Rightarrow> None
              | Some c \<Rightarrow>
                  let w5 = (if state (chans w4 c) \<noteq> AST_STATE_UP
                            then upd_pvt w4 p (\<lambda>P. P\<lparr>dialing := True\<rparr>) else w4)
                  in map_option (Pair False) (dahdi_ring_phone k w5 p))
        else
          (case owner (sub_of w1 p SUB_THREEWAY) of
             Some tw \<Rightarrow> onhook_threeway k w1 ast p tw now
           | None \<Rightarrow> Some (False, w1))
      else Some (False, emit w1 (LOG_WARNING ''Got a hangup and my index is not 0?'')))"

text \<open>
  The branches of the two events that are not modelled are parameters: what
  the handlers do in operator mode, the start of a three-way call (after the
  test of \<^verbatim>\<open>threewaycalling\<close>: the conference check, \<^verbatim>\<open>alloc_sub\<close>,
  \<^verbatim>\<open>dahdi_new\<close> and the switch thread), and the flash on the other signalling
  styles.
\<close>

record branches =
  oprmode_onhook :: "world \<Rightarrow> pvt_ptr \<Rightarrow> world"
  oprmode_winkflash :: "world \<Rightarrow> pvt_ptr \<Rightarrow> world"
  start_threeway :: "world \<Rightarrow> chan_ptr \<Rightarrow> pvt_ptr \<Rightarrow> world"
  other_winkflash :: "world \<Rightarrow> chan_ptr \<Rightarrow> pvt_ptr \<Rightarrow> (ast_frame option \<times> world) option"

text \<open>
  The on-hook event.  \<open>None\<close> as a frame is the NULL the handler returns to
  have the channel hung up.
\<close>

definition onhook_event ::
  "kernel \<Rightarrow> branches \<Rightarrow> world \<Rightarrow> chan_ptr \<Rightarrow> pvt_ptr \<Rightarrow> nat \<Rightarrow> int \<Rightarrow>
   (ast_frame option \<times> world) option" where
  "onhook_event k br w ast p index now =
     (if radio (pvts w p) \<noteq> 0 then
        Some (Some \<lparr>ftype = AST_FRAME_CONTROL, fsubclass = AST_CONTROL_RADIO_UNKEY\<rparr>, w)
      else if oprmode (pvts w p) < 0 then
        Some (Some ast_null_frame, if oprmode (pvts w p) \<noteq> - 1 then w else oprmode_onhook br w p)
      else if sig (pvts w p) \<in> {SIG_FXOLS, SIG_FXOGS, SIG_FXOKS} then
        (case onhook_fxo k w ast p index now of
           None \<Rightarrow> None
         | Some (brk, w1) \<Rightarrow>
             if brk then Some (Some ast_null_frame, w1)
             else Some (None, dahdi_disable_ec k w1 p))
      else Some (None, dahdi_disable_ec k w p))"

text \<open>
  The case \<^verbatim>\<open>SIG_FXOLS\<close>, \<^verbatim>\<open>SIG_FXOGS\<close>, \<^verbatim>\<open>SIG_FXOKS\<close> of the flash
  event, in three parts: the flash with a call waiting, the flash with a
  three-way leg, and the case itself, which ends at \<^verbatim>\<open>winkflashdone\<close> with
  \<^verbatim>\<open>update_conf\<close>.
\<close>

definition flash_callwait :: "kernel \<Rightarrow> world \<Rightarrow> pvt_ptr \<Rightarrow> world option" where
  "flash_callwait k w p =
     (let w1 = swap_subs w p SUB_REAL SUB_CALLWAIT;
          w2 = snd (tone_zone_play_tone k w1 (dfd (sub_of w1 p SUB_REAL)) TONE_STOP);
          w3 = upd_pvt w2 p (\<lambda>P. P\<lparr>powner := owner (sub_of w2 p SUB_REAL)\<rparr>)
      in case powner (pvts w3 p) of
           None \<Rightarrow> None
         | Some o1 \<Rightarrow>
             let w4 = (if state (chans w3 o1) = AST_STATE_RINGING
                       then upd_sub (ast_setstate w3 o1 AST_STATE_UP) p SUB_REAL
                              (\<lambda>s. s\<lparr>needanswer := True\<rparr>)
                       else w3);
                 w5 = upd_pvt w4 p (\<lambda>P. P\<lparr>callwaitingrepeat := 0, cidcwexpire := 0\<rparr>)
             in (case owner (sub_of w5 p SUB_CALLWAIT) of
                   None \<Rightarrow> None
                 | Some cw \<Rightarrow>
                     let w6 = (if \<not> inthreeway (sub_of w5 p SUB_CALLWAIT) \<and> bridged (chans w5 cw) \<noteq> None
                               then ast_queue_control w5 cw AST_CONTROL_HOLD else w5);
                         w7 = upd_sub w6 p SUB_CALLWAIT (\<lambda>s. s\<lparr>needhold := True\<rparr>)
                     in (case owner (sub_of w7 p SUB_REAL) of
                           None \<Rightarrow> None
                         | Some r \<Rightarrow>
                             let w8 = (if bridged (chans w7 r) \<noteq> None
                                       then ast_queue_control w7 r AST_CONTROL_HOLD else w7)
                             in Some (upd_sub w8 p SUB_REAL (\<lambda>s. s\<lparr>needunhold := True\<rparr>)))))"

definition flash_threeway :: "kernel \<Rightarrow> world \<Rightarrow> chan_ptr \<Rightarrow> pvt_ptr \<Rightarrow> world option" where
  "flash_threeway k w ast p =
     (if inthreeway (sub_of w p SUB_THREEWAY) then
        (case (owner (sub_of w p SUB_REAL), owner (sub_of w p SUB_THREEWAY)) of
           (Some r, Some t) \<Rightarrow>
             let w1 = (if state (chans w r) \<noteq> AST_STATE_UP \<and> state (chans w t) = AST_STATE_UP then
                         let wa = swap_subs w p SUB_THREEWAY SUB_REAL
                         in upd_pvt wa p (\<lambda>P. P\<lparr>powner := owner (sub_of wa p SUB_REAL)\<rparr>)
                       else w)
             in (case owner (sub_of w1 p SUB_THREEWAY) of
                   None \<Rightarrow> None
                 | Some t1 \<Rightarrow>
                     let w2 = soft_hangup_dev w1 t1;
                         w3 = upd_sub w2 p SUB_REAL (\<lambda>s. s\<lparr>inthreeway := False\<rparr>)
                     in Some (upd_sub w3 p SUB_THREEWAY (\<lambda>s. s\<lparr>inthreeway := False\<rparr>)))
         | _ \<Rightarrow> None)
      else if (pbx (chans w ast) \<or> state (chans w ast) = AST_STATE_UP) \<and>
              (transfertobusy (pvts w p) \<or> state (chans w ast) \<noteq> AST_STATE_BUSY) then
        let w1 = upd_sub w p SUB_THREEWAY (\<lambda>s. s\<lparr>inthreeway := True\<rparr>);
            w2 = upd_sub w1 p SUB_REAL (\<lambda>s. s\<lparr>inthreeway := True\<rparr>);
            w3 = (if state (chans w2 ast) = AST_STATE_UP
                  then swap_subs w2 p SUB_THREEWAY SUB_REAL else w2);
            otherindex = (if state (chans w2 ast) = AST_STATE_UP then SUB_REAL else SUB_THREEWAY);
            w4 = (case owner (sub_of w3 p otherindex) of
                    Some c \<Rightarrow> if bridged (chans w3 c) \<noteq> None
                              then ast_queue_control w3 c AST_CONTROL_UNHOLD else w3
                  | None \<Rightarrow> w3);
            w5 = upd_sub w4 p otherindex (\<lambda>s. s\<lparr>needunhold := True\<rparr>);
            w6 = upd_pvt w5 p (\<lambda>P. P\<lparr>powner := owner (sub_of w5 p SUB_REAL)\<rparr>)
        in if state (chans w6 ast) = AST_STATE_RINGING then
             let wa = snd (tone_zone_play_tone k w6 (dfd (sub_of w6 p SUB_REAL)) DAHDI_TONE_RINGTONE)
             in Some (snd (tone_zone_play_tone k wa (dfd (sub_of wa p SUB_THREEWAY))
                             DAHDI_TONE_RINGTONE))
           else Some w6
      else
        let w1 = swap_subs w p SUB_THREEWAY SUB_REAL in
        (case owner (sub_of w1 p SUB_THREEWAY) of
           None \<Rightarrow> None
         | Some t \<Rightarrow>
             let w2 = soft_hangup_dev w1 t;
                 w3 = upd_pvt w2 p (\<lambda>P. P\<lparr>powner := owner (sub_of w2 p SUB_REAL)\<rparr>);
                 w4 = (case owner (sub_of w3 p SUB_REAL) of
                         Some c \<Rightarrow> if bridged (chans w3 c) \<noteq> None
                                   then ast_queue_control w3 c AST_CONTROL_UNHOLD else w3
                       | None \<Rightarrow> w3);
                 w5 = upd_sub w4 p SUB_REAL (\<lambda>s. s\<lparr>needunhold := True\<rparr>)
             in Some (dahdi_enable_ec k w5 p)))"

definition winkflash_fxo ::
  "kernel \<Rightarrow> branches \<Rightarrow> world \<Rightarrow> chan_ptr \<Rightarrow> pvt_ptr \<Rightarrow> nat \<Rightarrow> world option" where
  "winkflash_fxo k br w ast p index =
     (let w1 = upd_pvt w p (\<lambda>P. P\<lparr>callwaitcas := 0\<rparr>);
          r = (if index \<noteq> SUB_REAL then
                 Some (emit w1 (LOG_WARNING ''Got flash hook with index other than 0''))
               else if owner (sub_of w1 p SUB_CALLWAIT) \<noteq> None then flash_callwait k w1 p
               else if owner (sub_of w1 p SUB_THREEWAY) = None then
                 if \<not> threewaycalling (pvts w1 p)
                   then Some (upd_sub w1 p SUB_REAL (\<lambda>s. s\<lparr>needflash := True\<rparr>))
                 else Some (start_threeway br w1 ast p)
               else flash_threeway k w1 ast p)
      in map_option (\<lambda>w2. update_conf k w2 p) r)"

text \<open>
  The flash event at time \<open>now\<close>: it records the time of the flash and
  dispatches on \<open>mysig\<close>.  No branch of it reads \<open>flashtime\<close>.
\<close>

definition winkflash_event ::
  "kernel \<Rightarrow> branches \<Rightarrow> world \<Rightarrow> chan_ptr \<Rightarrow> pvt_ptr \<Rightarrow> nat \<Rightarrow> signalling \<Rightarrow> int \<Rightarrow>
   (ast_frame option \<times> world) option" where
  "winkflash_event k br w ast p index mysig now =
     (if inalarm (pvts w p) then Some (Some ast_null_frame, w)
      else if radio (pvts w p) \<noteq> 0 then Some (Some ast_null_frame, w)
      else if oprmode (pvts w p) < 0 then Some (Some ast_null_frame, w)
      else if oprmode (pvts w p) > 1 then Some (Some ast_null_frame, oprmode_winkflash br w p)
      else
        let w1 = upd_pvt w p (\<lambda>P. P\<lparr>flashtime := now\<rparr>) in
        if mysig \<in> {SIG_FXOLS, SIG_FXOGS, SIG_FXOKS} then
          map_option (Pair (Some ast_null_frame)) (winkflash_fxo k br w1 ast p index)
        else other_winkflash br w1 ast p)"

text \<open>
  \<^verbatim>\<open>dahdi_handle_event\<close> for the two events modelled (the event is what
  \<^verbatim>\<open>dahdi_get_event\<close> returned): the sub-channel index is resolved, and
  without one the empty frame is returned.
\<close>

datatype dahdi_event = DAHDI_EVENT_ONHOOK | DAHDI_EVENT_WINKFLASH

definition dahdi_handle_event ::
  "kernel \<Rightarrow> branches \<Rightarrow> world \<Rightarrow> chan_ptr \<Rightarrow> dahdi_event \<Rightarrow> int \<Rightarrow>
   (ast_frame option \<times> world) option" where
  "dahdi_handle_event k br w ast ev now =
     (case tech_pvt (chans w ast) of
        None \<Rightarrow> None
      | Some p \<Rightarrow>
          let r = dahdi_get_index w ast p False;
              mysig = (case outsigmod (pvts w p) of Some s \<Rightarrow> s | None \<Rightarrow> sig (pvts w p))
          in if fst r < 0 then Some (Some ast_null_frame, snd r)
             else
               (case ev of
                  DAHDI_EVENT_ONHOOK \<Rightarrow> onhook_event k br (snd r) ast p (nat (fst r)) now
                | DAHDI_EVENT_WINKFLASH \<Rightarrow>
                    winkflash_event k br (snd r) ast p (nat (fst r)) mysig now))"

text \<open>
  A kewlstart line (line 4) with an answered call on its Real sub-channel
  (channel 10, running in the PBX) and a second, answered call on its
  allocated ThreeWay sub-channel (channel 11), not yet merged; the last flash
  was at time 1000.  And branches that do nothing, for the parts of the event
  handlers that are parameters.
\<close>

definition flash_world :: world where
  "flash_world = idle_world\<lparr>pvts := (\<lambda>_. idle_pvt)
       (4 := idle_pvt\<lparr>powner := Some 10, channel := 4, sig := SIG_FXOKS, threewaycalling := True,
          flashtime := 1000,
          subs := (\<lambda>_. idle_sub)
            (0 := idle_sub\<lparr>dfd := 5, owner := Some 10, chan := 4\<rparr>,
             2 := idle_sub\<lparr>dfd := 8, owner := Some 11, chan := 40\<rparr>)\<rparr>),
     chans := (\<lambda>_. idle_chan)
       (10 := idle_chan\<lparr>state := AST_STATE_UP, fds := (\<lambda>_. - 1)(0 := 5), tech_pvt := Some 4,
                pbx := True\<rparr>,
        11 := idle_chan\<lparr>state := AST_STATE_UP, fds := (\<lambda>_. - 1)(0 := 8), tech_pvt := Some 4\<rparr>)\<rparr>"

definition no_branches :: branches where
  "no_branches = \<lparr>oprmode_onhook = (\<lambda>w p. w), oprmode_winkflash = (\<lambda>w p. w),
     start_threeway = (\<lambda>w c p. w), other_winkflash = (\<lambda>w c p. Some (Some ast_null_frame, w))\<rparr>"

section \<open>When reconciliation has nothing left to do\<close>

text \<open>
  A driver that accepts every request and leaves mode and number as asked,
  except that it hands out conference \<open>N\<close> when asked for a new one.
\<close>

definition allocating :: "kernel \<Rightarrow> int \<Rightarrow> bool" where
  "allocating k N =
     (\<forall>n fd z. fst (setconf k n fd z) = 0 \<and> confmode (snd (setconf k n fd z)) = confmode z \<and>
        confno (snd (setconf k n fd z)) = (if confno z = - 1 then N else confno z))"



definition del_settled :: "world \<Rightarrow> pvt_ptr \<Rightarrow> sub_ptr \<Rightarrow> bool" where
  "del_settled w p c = (dfd (csub w c) < 0 \<or> \<not> isourconf w p c)"


text \<open>
  One step of the line's conference number while \<^verbatim>\<open>update_conf\<close> runs with
  such a driver: it stays, or a new conference \<open>N\<close> is allocated.
\<close>

definition confno_step :: "int \<Rightarrow> pvt_ptr \<Rightarrow> world \<Rightarrow> world \<Rightarrow> bool" where
  "confno_step N p w w' =
     (confno_p (pvts w' p) = confno_p (pvts w p) \<or>
      (confno_p (pvts w p) = - 1 \<and> confno_p (pvts w' p) = N))"






section \<open>Properties of the sub-channel multiplexer\<close>

lemma pvts_upd_pvt: "pvts (upd_pvt w p f) = (pvts w)(p := f (pvts w p))"
  by (simp add: upd_pvt_def)

lemma pvts_upd_chan: "pvts (upd_chan w c f) = pvts w"
  by (simp add: upd_chan_def)

lemma sub_of_upd_sub:
  "sub_of (upd_sub w p x f) q y = (if q = p \<and> y = x then f (sub_of w p x) else sub_of w q y)"
  by (simp add: sub_of_def upd_sub_def upd_pvt_def)

lemma sub_of_upd_chan: "sub_of (upd_chan w c f) q y = sub_of w q y"
  by (simp add: sub_of_def upd_chan_def)

lemma sub_of_set_fd: "sub_of (ast_channel_set_fd w c n fd) q y = sub_of w q y"
  by (simp add: ast_channel_set_fd_def sub_of_upd_chan)

lemma sub_of_wakeup: "sub_of (wakeup_sub w p a) q y = sub_of w q y"
  by (simp add: wakeup_sub_def ast_queue_frame_def sub_of_upd_chan split: option.split)

lemma pvts_set_fd: "pvts (ast_channel_set_fd w c n fd) = pvts w"
  by (simp add: ast_channel_set_fd_def pvts_upd_chan)

lemma pvts_wakeup: "pvts (wakeup_sub w p a) = pvts w"
  by (simp add: wakeup_sub_def ast_queue_frame_def pvts_upd_chan split: option.split)


lemma pvts_upd_sub:
  "pvts (upd_sub w p x f) = (pvts w)(p := (pvts w p)\<lparr>subs := (subs (pvts w p))(x := f (sub_of w p x))\<rparr>)"
  by (simp add: upd_sub_def upd_pvt_def sub_of_def)

lemma sub_of_rehome: "sub_of (rehome_fd w p x) q y = sub_of w q y"
  by (simp add: rehome_fd_def sub_of_set_fd split: option.split)

lemma pvts_rehome: "pvts (rehome_fd w p x) = pvts w"
  by (simp add: rehome_fd_def pvts_set_fd split: option.split)

lemma sub_of_swap_fields:
  "sub_of (swap_fields w p a b) q y =
     (if q = p \<and> y = b then
        (sub_of w p b)\<lparr>chan := chan (sub_of w p a), owner := owner (sub_of w p a),
                        inthreeway := inthreeway (sub_of w p a)\<rparr>
      else if q = p \<and> y = a then
        (sub_of w p a)\<lparr>chan := chan (sub_of w p b), owner := owner (sub_of w p b),
                        inthreeway := inthreeway (sub_of w p b)\<rparr>
      else sub_of w q y)"
  by (simp add: swap_fields_def Let_def sub_of_upd_sub)


lemma pvts_swap_fields:
  "pvts (swap_fields w p a b) = (pvts w)(p := (pvts w p)\<lparr>subs := subs (pvts (swap_fields w p a b) p)\<rparr>)"
  by (simp add: swap_fields_def Let_def pvts_upd_sub)

lemma pvts_swap_subs:
  "pvts (swap_subs w p a b) = pvts (swap_fields w p a b)"
  by (simp add: swap_subs_def Let_def pvts_wakeup pvts_rehome)

lemma sub_of_swap_subs:
  "sub_of (swap_subs w p a b) = sub_of (swap_fields w p a b)"
  by (simp add: sub_of_def pvts_swap_subs fun_eq_iff)

lemma swap_fields_twice: "pvts (swap_fields (swap_fields w p a b) p a b) = pvts w"
proof -
  let ?w1 = "swap_fields w p a b"
  let ?w2 = "swap_fields ?w1 p a b"
  have s: "subs (pvts ?w2 p) = subs (pvts w p)"
  proof
    fix y
    have "sub_of ?w2 p y = sub_of w p y"
      by (simp add: sub_of_swap_fields)
    then show "subs (pvts ?w2 p) y = subs (pvts w p) y"
      by (simp add: sub_of_def)
  qed
  have "pvts ?w2 = (pvts ?w1)(p := (pvts ?w1 p)\<lparr>subs := subs (pvts w p)\<rparr>)"
    using pvts_swap_fields [of ?w1 p a b] by (simp only: s)
  also have "\<dots> = (pvts w)(p := (pvts w p)\<lparr>subs := subs (pvts w p)\<rparr>)"
    by (subst (1 2) pvts_swap_fields [of w p a b]) simp
  finally show ?thesis by simp
qed


lemma swap_fields_cong:
  "pvts w = pvts w' \<Longrightarrow> pvts (swap_fields w p a b) = pvts (swap_fields w' p a b)"
  by (simp add: swap_fields_def Let_def pvts_upd_sub sub_of_def)

lemma chans_upd_sub: "chans (upd_sub w p x f) = chans w"
  by (simp add: upd_sub_def upd_pvt_def)

lemma chans_swap_fields: "chans (swap_fields w p a b) = chans w"
  by (simp add: swap_fields_def Let_def chans_upd_sub)

lemma fds_wakeup: "fds (chans (wakeup_sub w p a) c) = fds (chans w c)"
  by (simp add: wakeup_sub_def ast_queue_frame_def upd_chan_def split: option.split)

lemma fds_rehome:
  "fds (chans (rehome_fd w p x) c) n =
     (if owner (sub_of w p x) = Some c \<and> n = 0 then dfd (sub_of w p x) else fds (chans w c) n)"
  by (simp add: rehome_fd_def ast_channel_set_fd_def upd_chan_def split: option.split)

lemma fds_swap_subs:
  "fds (chans (swap_subs w p a b) c) n =
     (if owner (sub_of (swap_fields w p a b) p b) = Some c \<and> n = 0
        then dfd (sub_of (swap_fields w p a b) p b)
      else if owner (sub_of (swap_fields w p a b) p a) = Some c \<and> n = 0
        then dfd (sub_of (swap_fields w p a b) p a)
      else fds (chans w c) n)"
  by (simp add: swap_subs_def Let_def fds_wakeup fds_rehome sub_of_rehome chans_swap_fields)

section \<open>Claims about the sub-channel multiplexer\<close>

text \<open>
  C2.  Swapping the same two roles of a line twice in succession restores the
  owner, the channel number and the three-way flag of both roles: the whole
  sub-channel array, and with it every line structure, is as it was before the
  first swap.
\<close>

theorem swap_subs_twice:
  "pvts (swap_subs (swap_subs w p a b) p a b) = pvts w"
proof -
  have "pvts (swap_subs (swap_subs w p a b) p a b) = pvts (swap_fields (swap_subs w p a b) p a b)"
    by (rule pvts_swap_subs)
  also have "\<dots> = pvts (swap_fields (swap_fields w p a b) p a b)"
    by (rule swap_fields_cong) (rule pvts_swap_subs)
  finally show ?thesis
    by (simp only: swap_fields_twice)
qed

text \<open>
  C9.  \<^verbatim>\<open>swap_subs\<close> leaves the descriptor \<open>dfd\<close> of every slot where it
  is; in the two slots it exchanges the owner, the channel number and the
  three-way flag and nothing else, and it leaves every other slot alone.  After
  the swap the owner of slot \<open>b\<close> reads its frames from the descriptor of slot
  \<open>b\<close>, and the owner of slot \<open>a\<close> from the descriptor of slot \<open>a\<close>
  (when one channel owns both slots the descriptor of \<open>b\<close>, set last, stands).
\<close>

theorem swap_subs_bindings:
  "(\<forall>q y. dfd (sub_of (swap_subs w p a b) q y) = dfd (sub_of w q y)) \<and>
   (\<forall>q y. sub_of (swap_subs w p a b) q y =
      (if q = p \<and> y = b then
         (sub_of w p b)\<lparr>chan := chan (sub_of w p a), owner := owner (sub_of w p a),
                         inthreeway := inthreeway (sub_of w p a)\<rparr>
       else if q = p \<and> y = a then
         (sub_of w p a)\<lparr>chan := chan (sub_of w p b), owner := owner (sub_of w p b),
                         inthreeway := inthreeway (sub_of w p b)\<rparr>
       else sub_of w q y)) \<and>
   (\<forall>c. owner (sub_of (swap_subs w p a b) p b) = Some c \<longrightarrow>
        fds (chans (swap_subs w p a b) c) 0 = dfd (sub_of (swap_subs w p a b) p b)) \<and>
   (\<forall>c. owner (sub_of (swap_subs w p a b) p a) = Some c \<longrightarrow>
        owner (sub_of (swap_subs w p a b) p b) \<noteq> Some c \<longrightarrow>
        fds (chans (swap_subs w p a b) c) 0 = dfd (sub_of (swap_subs w p a b) p a))"
  by (simp add: sub_of_swap_subs fds_swap_subs sub_of_swap_fields)


theorem swap_subs_bindings_witness:
  "owner (sub_of (swap_subs two_call_world 1 SUB_THREEWAY SUB_REAL) 1 SUB_REAL) = Some 11 \<and>
   fds (chans (swap_subs two_call_world 1 SUB_THREEWAY SUB_REAL) 11) 0 = 5 \<and>
   owner (sub_of (swap_subs two_call_world 1 SUB_THREEWAY SUB_REAL) 1 SUB_THREEWAY) = Some 10 \<and>
   fds (chans (swap_subs two_call_world 1 SUB_THREEWAY SUB_REAL) 10) 0 = 8"
  using swap_subs_bindings [of two_call_world 1 SUB_THREEWAY SUB_REAL]
  by (simp add: sub_of_def two_call_world_def two_call_line_def idle_sub_def
      SUB_REAL_def SUB_THREEWAY_def)

text \<open>
  C8.  Releasing the Real sub-channel (index 0) returns \<open>-1\<close>; every line
  structure and every channel is left as it was, and the only thing the call
  emits is its warning: no descriptor is closed.
\<close>

theorem unalloc_sub_real:
  "fst (unalloc_sub w p SUB_REAL) = - 1 \<and>
   pvts (snd (unalloc_sub w p SUB_REAL)) = pvts w \<and>
   chans (snd (unalloc_sub w p SUB_REAL)) = chans w \<and>
   (\<exists>msg. trace (snd (unalloc_sub w p SUB_REAL)) = trace w @ [LOG_WARNING msg])"
  by (simp add: unalloc_sub_def SUB_REAL_def emit_def)

section \<open>Linking lines\<close>

lemma link_scan_0:
  "link_scan sl 0 =
     (if sl 0 = None then 0 else if sl 1 = None then 1 else if sl 2 = None then 2
      else if sl 3 = None then 3 else 4)"
proof -
  have 4: "link_scan sl 4 = 4" by (simp add: link_scan.simps [of sl 4] MAX_SLAVES_def)
  have 3: "link_scan sl 3 = (if sl 3 = None then 3 else 4)"
    using 4 by (simp add: link_scan.simps [of sl 3] MAX_SLAVES_def)
  have 2: "link_scan sl 2 = (if sl 2 = None then 2 else link_scan sl 3)"
    by (simp add: link_scan.simps [of sl 2] MAX_SLAVES_def)
  have 1: "link_scan sl (Suc 0) = (if sl (Suc 0) = None then Suc 0 else link_scan sl 2)"
    by (simp add: link_scan.simps [of sl "Suc 0"] MAX_SLAVES_def numeral_2_eq_2)
  have 0: "link_scan sl 0 = (if sl 0 = None then 0 else link_scan sl (Suc 0))"
    by (simp add: link_scan.simps [of sl 0] MAX_SLAVES_def)
  show ?thesis by (simp add: 0 1 2 3)
qed

lemma link_scan_spec:
  "(link_scan sl 0 < MAX_SLAVES \<and> sl (link_scan sl 0) = None \<and> (\<forall>y < link_scan sl 0. sl y \<noteq> None)) \<or>
   (link_scan sl 0 = MAX_SLAVES \<and> (\<forall>y < MAX_SLAVES. sl y \<noteq> None))"
  apply (simp add: link_scan_0 MAX_SLAVES_def)
  apply (auto simp: less_Suc_eq numeral_3_eq_3 numeral_2_eq_2 eval_nat_numeral)
  done


lemma pvts_emit: "pvts (emit w a) = pvts w"
  by (simp add: emit_def)

lemma link_scan_le: "link_scan sl 0 \<le> MAX_SLAVES"
  by (simp add: link_scan_0 MAX_SLAVES_def)

lemma slaves_dahdi_link:
  "slaves (pvts (dahdi_link w (Some s) (Some m)) m) =
     (slaves (pvts w m))
       ((if link_scan (slaves (pvts w m)) 0 < MAX_SLAVES
         then link_scan (slaves (pvts w m)) 0 else MAX_SLAVES - 1) := Some s)"
  by (simp add: dahdi_link_def Let_def pvts_upd_pvt pvts_emit)

lemma master_dahdi_link:
  "master (pvts (dahdi_link w (Some s) (Some m)) q) =
     (if q = s then Some m else master (pvts w q))"
  by (simp add: dahdi_link_def Let_def pvts_upd_pvt pvts_emit)

lemma trace_dahdi_link:
  "trace (dahdi_link w (Some s) (Some m)) =
     trace w @
     (if link_scan (slaves (pvts w m)) 0 < MAX_SLAVES then []
      else [LOG_WARNING ''Replacing slave with new slave'']) @
     (if master (pvts w s) \<noteq> None then [LOG_WARNING ''Replacing master with new master''] else [])"
  by (simp add: dahdi_link_def Let_def upd_pvt_def emit_def)

lemma chans_dahdi_link: "chans (dahdi_link w (Some s) (Some m)) = chans w"
  by (simp add: dahdi_link_def Let_def upd_pvt_def emit_def)

text \<open>
  C10 (amended).  After \<^verbatim>\<open>dahdi_link(slave, master)\<close> with both lines
  non-null the slave's master pointer is the master and no other line's master
  pointer has changed (the evicted line still points to the master).  Exactly
  one slot \<open>x\<close> of the master's slave array was written, with the slave: the
  first free slot, or the last slot when all \<open>MAX_SLAVES\<close> slots were
  taken; in that case its occupant is replaced and the warning ``Replacing
  slave'' is logged.  The warning ``Replacing master'' is logged when the slave
  had a master, and nothing else is logged.  The slots the slave occupies
  afterwards are \<open>x\<close> and the slots it occupied before: a slave linked before
  in another slot stands in two.  No other slave array and no channel changes.
\<close>

theorem dahdi_link_effect:
  "master (pvts (dahdi_link w (Some s) (Some m)) s) = Some m \<and>
   (\<forall>q. q \<noteq> s \<longrightarrow> master (pvts (dahdi_link w (Some s) (Some m)) q) = master (pvts w q)) \<and>
   (\<exists>x<MAX_SLAVES.
      ((slaves (pvts w m) x = None \<and> (\<forall>y<x. slaves (pvts w m) y \<noteq> None) \<and>
        trace (dahdi_link w (Some s) (Some m)) =
          trace w @ (if master (pvts w s) \<noteq> None
                     then [LOG_WARNING ''Replacing master with new master''] else [])) \<or>
       ((\<forall>y<MAX_SLAVES. slaves (pvts w m) y \<noteq> None) \<and> x = MAX_SLAVES - 1 \<and>
        trace (dahdi_link w (Some s) (Some m)) =
          trace w @ [LOG_WARNING ''Replacing slave with new slave''] @
            (if master (pvts w s) \<noteq> None
             then [LOG_WARNING ''Replacing master with new master''] else []))) \<and>
      slaves (pvts (dahdi_link w (Some s) (Some m)) m) = (slaves (pvts w m))(x := Some s) \<and>
      (\<forall>y. slaves (pvts (dahdi_link w (Some s) (Some m)) m) y = Some s \<longleftrightarrow>
             y = x \<or> slaves (pvts w m) y = Some s)) \<and>
   (\<forall>q. q \<noteq> m \<longrightarrow> slaves (pvts (dahdi_link w (Some s) (Some m)) q) = slaves (pvts w q)) \<and>
   chans (dahdi_link w (Some s) (Some m)) = chans w"
proof -
  let ?sl = "slaves (pvts w m)"
  let ?x = "link_scan ?sl 0"
  let ?w' = "dahdi_link w (Some s) (Some m)"
  have o: "\<forall>q. q \<noteq> m \<longrightarrow> slaves (pvts ?w' q) = slaves (pvts w q)"
    by (simp add: dahdi_link_def Let_def pvts_upd_pvt pvts_emit)
  consider (free) "?x < MAX_SLAVES" "?sl ?x = None" "\<forall>y < ?x. ?sl y \<noteq> None"
    | (full) "?x = MAX_SLAVES" "\<forall>y < MAX_SLAVES. ?sl y \<noteq> None"
    using link_scan_spec [of ?sl] by fastforce
  then have "\<exists>x<MAX_SLAVES.
      ((?sl x = None \<and> (\<forall>y<x. ?sl y \<noteq> None) \<and>
        trace ?w' =
          trace w @ (if master (pvts w s) \<noteq> None
                     then [LOG_WARNING ''Replacing master with new master''] else [])) \<or>
       ((\<forall>y<MAX_SLAVES. ?sl y \<noteq> None) \<and> x = MAX_SLAVES - 1 \<and>
        trace ?w' =
          trace w @ [LOG_WARNING ''Replacing slave with new slave''] @
            (if master (pvts w s) \<noteq> None
             then [LOG_WARNING ''Replacing master with new master''] else []))) \<and>
      slaves (pvts ?w' m) = ?sl(x := Some s) \<and>
      (\<forall>y. slaves (pvts ?w' m) y = Some s \<longleftrightarrow> y = x \<or> ?sl y = Some s)"
  proof cases
    case free
    have e: "slaves (pvts ?w' m) = ?sl(?x := Some s)"
      using free(1) by (simp add: slaves_dahdi_link)
    have t: "trace ?w' = trace w @ (if master (pvts w s) \<noteq> None
                     then [LOG_WARNING ''Replacing master with new master''] else [])"
      using free(1) by (simp add: trace_dahdi_link)
    show ?thesis
      by (rule exI [of _ ?x]) (use free e t in auto)
  next
    case full
    have e: "slaves (pvts ?w' m) = ?sl(MAX_SLAVES - 1 := Some s)"
      using full(1) by (simp add: slaves_dahdi_link)
    have t: "trace ?w' = trace w @ [LOG_WARNING ''Replacing slave with new slave''] @
            (if master (pvts w s) \<noteq> None
             then [LOG_WARNING ''Replacing master with new master''] else [])"
      using full(1) by (simp add: trace_dahdi_link)
    have l: "MAX_SLAVES - 1 < MAX_SLAVES" by (simp add: MAX_SLAVES_def)
    show ?thesis
      by (rule exI [of _ "MAX_SLAVES - 1"]) (use full e t l in auto)
  qed
  then show ?thesis
    using o by (simp add: master_dahdi_link chans_dahdi_link)
qed


theorem dahdi_link_effect_witness:
  "slaves (pvts (dahdi_link full_world (Some 3) (Some 2)) 2) (MAX_SLAVES - 1) = Some 3 \<and>
   slaves (pvts (dahdi_link full_world (Some 3) (Some 2)) 2) 0 = Some 4 \<and>
   master (pvts (dahdi_link full_world (Some 3) (Some 2)) 3) = Some 2 \<and>
   master (pvts (dahdi_link full_world (Some 3) (Some 2)) 7) = Some 2 \<and>
   trace (dahdi_link full_world (Some 3) (Some 2)) = [LOG_WARNING ''Replacing slave with new slave'']"
proof -
  let ?w = "dahdi_link full_world (Some 3) (Some 2)"
  have sl: "slaves (pvts full_world 2) = (\<lambda>_. None)(0 := Some 4, 1 := Some 5, 2 := Some 6, 3 := Some 7)"
    by (simp add: full_world_def idle_world_def)
  have full: "\<And>y. y < MAX_SLAVES \<Longrightarrow> slaves (pvts full_world 2) y \<noteq> None"
    by (auto simp: sl MAX_SLAVES_def)
  have m: "master (pvts full_world 7) = Some 2" "master (pvts full_world 3) = None"
    "trace full_world = []"
    by (simp_all add: full_world_def idle_world_def idle_pvt_def)
  note t = dahdi_link_effect [of full_world 3 2]
  from t obtain x where x: "x < MAX_SLAVES"
      "slaves (pvts full_world 2) x = None \<and> (\<forall>y<x. slaves (pvts full_world 2) y \<noteq> None) \<and>
        trace ?w = trace full_world @ (if master (pvts full_world 3) \<noteq> None
                     then [LOG_WARNING ''Replacing master with new master''] else []) \<or>
       (\<forall>y<MAX_SLAVES. slaves (pvts full_world 2) y \<noteq> None) \<and> x = MAX_SLAVES - 1 \<and>
        trace ?w = trace full_world @ [LOG_WARNING ''Replacing slave with new slave''] @
            (if master (pvts full_world 3) \<noteq> None
             then [LOG_WARNING ''Replacing master with new master''] else [])"
      "slaves (pvts ?w 2) = (slaves (pvts full_world 2))(x := Some 3)"
    by blast
  from x(1,2) full [OF x(1)] have l: "x = MAX_SLAVES - 1"
      and tr: "trace ?w = [LOG_WARNING ''Replacing slave with new slave'']"
    by (auto simp: m)
  from x(3) l have "slaves (pvts ?w 2) (MAX_SLAVES - 1) = Some 3" "slaves (pvts ?w 2) 0 = Some 4"
    by (simp_all add: sl MAX_SLAVES_def)
  moreover from t have "master (pvts ?w 3) = Some 2" by blast
  moreover from t have "master (pvts ?w 7) = master (pvts full_world 7)" by simp
  ultimately show ?thesis using tr by (simp add: m)
qed

text \<open>
  C10 as stated fails: linking a slave that is already linked puts it into a
  second slot, and the replacement in a full array is not silent.
\<close>

theorem dahdi_link_twice_counterexample:
  "slaves (pvts (dahdi_link linked_world (Some 1) (Some 2)) 2) 0 = Some 1 \<and>
   slaves (pvts (dahdi_link linked_world (Some 1) (Some 2)) 2) 1 = Some 1 \<and>
   trace full_world = [] \<and>
   trace (dahdi_link full_world (Some 3) (Some 2)) = [LOG_WARNING ''Replacing slave with new slave'']"
  by code_simp

section \<open>Conference topology: what the functions leave alone\<close>

lemma upt_3: "[0..<3] = [0, 1, 2]"
  by (simp add: upt_rec)


lemma same_fixed_refl: "same_fixed w w"
  by (simp add: same_fixed_def)

lemma same_fixed_trans: "same_fixed w w1 \<Longrightarrow> same_fixed w1 w2 \<Longrightarrow> same_fixed w w2"
  by (simp add: same_fixed_def)

lemma same_fixed_emit: "same_fixed w (emit w a)"
  by (simp add: same_fixed_def emit_def)

lemma same_fixed_confno: "same_fixed w (upd_pvt w p (\<lambda>P. P\<lparr>confno_p := n\<rparr>))"
  by (simp add: same_fixed_def upd_pvt_def fixed_part_def)

lemma same_fixed_curconf: "same_fixed w (upd_sub w p x (\<lambda>s. s\<lparr>curconf := z\<rparr>))"
  by (simp add: same_fixed_def upd_sub_def upd_pvt_def fixed_part_def fun_eq_iff)

lemma fixed_fields:
  assumes "fixed_part P' = fixed_part P"
  shows "slaves P' = slaves P" "master P' = master P" "law P' = law P" "channel P' = channel P"
    "bearer P' = bearer P" "inconference P' = inconference P"
    "dfd (subs P' y) = dfd (subs P y)" "inthreeway (subs P' y) = inthreeway (subs P y)"
proof -
  have "slaves (fixed_part P') = slaves (fixed_part P)" using assms by simp
  then show "slaves P' = slaves P" by (simp add: fixed_part_def)
  have "master (fixed_part P') = master (fixed_part P)" using assms by simp
  then show "master P' = master P" by (simp add: fixed_part_def)
  have "law (fixed_part P') = law (fixed_part P)" using assms by simp
  then show "law P' = law P" by (simp add: fixed_part_def)
  have "channel (fixed_part P') = channel (fixed_part P)" using assms by simp
  then show "channel P' = channel P" by (simp add: fixed_part_def)
  have "bearer (fixed_part P') = bearer (fixed_part P)" using assms by simp
  then show "bearer P' = bearer P" by (simp add: fixed_part_def)
  have "inconference (fixed_part P') = inconference (fixed_part P)" using assms by simp
  then show "inconference P' = inconference P" by (simp add: fixed_part_def)
  have s: "subs (fixed_part P') y = subs (fixed_part P) y" using assms by simp
  then have "dfd (subs (fixed_part P') y) = dfd (subs (fixed_part P) y)" by simp
  then show "dfd (subs P' y) = dfd (subs P y)" by (simp add: fixed_part_def)
  from s have "inthreeway (subs (fixed_part P') y) = inthreeway (subs (fixed_part P) y)" by simp
  then show "inthreeway (subs P' y) = inthreeway (subs P y)" by (simp add: fixed_part_def)
qed

lemma same_fixed_fields:
  assumes "same_fixed w w'"
  shows "slaves (pvts w' q) = slaves (pvts w q)" "master (pvts w' q) = master (pvts w q)"
    "law (pvts w' q) = law (pvts w q)" "channel (pvts w' q) = channel (pvts w q)"
    "bearer (pvts w' q) = bearer (pvts w q)" "inconference (pvts w' q) = inconference (pvts w q)"
    "dfd (sub_of w' q y) = dfd (sub_of w q y)" "inthreeway (sub_of w' q y) = inthreeway (sub_of w q y)"
  using assms fixed_fields [of "pvts w' q" "pvts w q"]
  by (simp_all add: same_fixed_def sub_of_def)

lemma same_fixed_conf_add: "same_fixed w (snd (conf_add k w p c i s))"
  unfolding conf_add_def Let_def
  by (auto intro!: same_fixed_refl same_fixed_emit
      same_fixed_trans [OF same_fixed_emit same_fixed_curconf]
      same_fixed_trans [OF same_fixed_emit same_fixed_trans [OF same_fixed_confno same_fixed_curconf]]
      same_fixed_trans [OF same_fixed_emit same_fixed_emit])

lemma same_fixed_conf_del: "same_fixed w (snd (conf_del k w p c i))"
  unfolding conf_del_def Let_def
  by (auto intro!: same_fixed_refl same_fixed_emit
      same_fixed_trans [OF same_fixed_emit same_fixed_curconf]
      same_fixed_trans [OF same_fixed_emit same_fixed_emit])


lemma all_less_3: "(\<forall>y<3. P y) = (P 0 \<and> P (Suc 0) \<and> P (2::nat))"
  by (auto simp: less_Suc_eq numeral_3_eq_3 numeral_2_eq_2)

lemma all_less_4: "(\<forall>y<4. P y) = (P 0 \<and> P (Suc 0) \<and> P 2 \<and> P (3::nat))"
proof -
  have "\<And>y::nat. y < 4 \<longleftrightarrow> y < 3 \<or> y = 3" by arith
  then have "(\<forall>y<4. P y) = ((\<forall>y<3. P y) \<and> P 3)" by auto
  then show ?thesis by (simp add: all_less_3 conj_ac)
qed

lemma upt_4: "[0..<4] = [0, 1, 2, 3]"
  by (simp add: upt_rec)

lemma ex_less_4: "(\<exists>y<4. P y) = (P 0 \<or> P (Suc 0) \<or> P 2 \<or> P (3::nat))"
  using all_less_4 [of "\<lambda>y. \<not> P y"] by blast




lemma threeway_scan_3:
  "threeway_scan w p [0, 1, 2] True =
     (\<forall>y<3. \<not> (dfd (sub_of w p y) > - 1 \<and> inthreeway (sub_of w p y)))"
  by (simp add: all_less_3)

lemma isslavenative_iff:
  "fst (isslavenative w p) \<longleftrightarrow>
     (\<forall>y<3. \<not> (dfd (sub_of w p y) > - 1 \<and> inthreeway (sub_of w p y))) \<and>
     (\<exists>x<MAX_SLAVES. \<exists>q. slaves (pvts w p) x = Some q \<and>
        (\<forall>y<MAX_SLAVES. y \<noteq> x \<longrightarrow> slaves (pvts w p) y = None) \<and>
        law (pvts w q) = law (pvts w p))"
  unfolding isslavenative_def upt_3 MAX_SLAVES_def upt_4 all_less_4 ex_less_4 all_less_3
  by (auto simp: Let_def split: option.splits)

lemma isslavenative_snd:
  "fst (isslavenative w p) \<Longrightarrow>
   \<exists>x<MAX_SLAVES. \<exists>q. slaves (pvts w p) x = Some q \<and> snd (isslavenative w p) = Some q"
  unfolding isslavenative_def upt_3 MAX_SLAVES_def upt_4 ex_less_4
  by (auto simp: Let_def split: option.splits if_splits)

lemma isslavenative_slave:
  assumes "fst (isslavenative w p)" "slaves (pvts w p) x = Some q" "x < MAX_SLAVES"
  shows "snd (isslavenative w p) = Some q"
proof -
  obtain x0 q0 where u: "x0 < MAX_SLAVES" "slaves (pvts w p) x0 = Some q0"
      "\<forall>y<MAX_SLAVES. y \<noteq> x0 \<longrightarrow> slaves (pvts w p) y = None"
    using assms(1) isslavenative_iff [of w p] by blast
  obtain x1 q1 where v: "x1 < MAX_SLAVES" "slaves (pvts w p) x1 = Some q1"
      "snd (isslavenative w p) = Some q1"
    using isslavenative_snd [OF assms(1)] by blast
  have "x = x0" using u(3) assms(2,3) by force
  moreover have "x1 = x0" using u(3) v(1,2) by force
  ultimately show ?thesis using v assms(2) by simp
qed


lemma sub_of_emit: "sub_of (emit w a) q y = sub_of w q y"
  by (simp add: sub_of_def emit_def)

lemma sub_of_upd_pvt_confno: "sub_of (upd_pvt w p (\<lambda>P. P\<lparr>confno_p := n\<rparr>)) q y = sub_of w q y"
  by (simp add: sub_of_def upd_pvt_def)

lemma curconf_conf_add_other:
  "c' \<noteq> c \<Longrightarrow> curconf (csub (snd (conf_add k w p c i s)) c') = curconf (csub w c')"
  by (cases c, cases c')
     (auto simp: conf_add_def Let_def csub_def sub_of_emit sub_of_upd_sub sub_of_upd_pvt_confno)



lemma confno_conf_add_zi:
  "confno (conf_add_zi w p i s) = (if s > 0 then s else confno_p (pvts w p))"
  by (simp add: conf_add_zi_def)




lemma same_fixed_sub_step: "same_fixed w (fst (conf_sub_step k p x (w, n)))"
  by (simp add: conf_sub_step_def Let_def same_fixed_conf_add same_fixed_conf_del)

lemma same_fixed_slave_step: "same_fixed w (fst (conf_slave_step k p u x (w, n)))"
  by (simp add: conf_slave_step_def Let_def same_fixed_conf_add same_fixed_refl split: option.split)

lemma same_fixed_sub_loop: "same_fixed w (fst (fold (conf_sub_step k p) xs (w, n)))"
proof (induction xs arbitrary: w n)
  case Nil
  show ?case by (simp add: same_fixed_refl)
next
  case (Cons x xs)
  obtain w1 n1 where s: "conf_sub_step k p x (w, n) = (w1, n1)" by (cases "conf_sub_step k p x (w, n)")
  have "same_fixed w w1" using same_fixed_sub_step [of w k p x n] s by simp
  with Cons [of w1 n1] s show ?case by (simp add: same_fixed_trans)
qed

lemma same_fixed_slave_loop: "same_fixed w (fst (fold (conf_slave_step k p u) xs (w, n)))"
proof (induction xs arbitrary: w n)
  case Nil
  show ?case by (simp add: same_fixed_refl)
next
  case (Cons x xs)
  obtain w1 n1 where s: "conf_slave_step k p u x (w, n) = (w1, n1)"
    by (cases "conf_slave_step k p u x (w, n)")
  have "same_fixed w w1" using same_fixed_slave_step [of w k p u x n] s by simp
  with Cons [of w1 n1] s show ?case by (simp add: same_fixed_trans)
qed



section \<open>How a slave is merged\<close>










lemma conf_mode_value:
  "DAHDI_CONF_CONF OR DAHDI_CONF_TALKER OR DAHDI_CONF_LISTENER = 772"
  by (simp add: DAHDI_CONF_CONF_def DAHDI_CONF_TALKER_def DAHDI_CONF_LISTENER_def)


lemma sub_of_upd_pvt_confno': "sub_of (upd_pvt w p (\<lambda>P. P\<lparr>confno_p := n\<rparr>)) = sub_of w"
  by (simp add: sub_of_upd_pvt_confno fun_eq_iff)




section \<open>Call lifecycle: placing a call\<close>

lemma pvts_emit': "pvts (emit w a) = pvts w" by (simp add: emit_def)
lemma chans_emit: "chans (emit w a) = chans w" by (simp add: emit_def)
lemma trace_emit: "trace (emit w a) = trace w @ [a]" by (simp add: emit_def)
lemma chans_upd_pvt: "chans (upd_pvt w p f) = chans w" by (simp add: upd_pvt_def)
lemma trace_upd_pvt: "trace (upd_pvt w p f) = trace w" by (simp add: upd_pvt_def)
lemma trace_upd_sub: "trace (upd_sub w p x f) = trace w" by (simp add: upd_sub_def upd_pvt_def)
lemma trace_upd_chan: "trace (upd_chan w c f) = trace w" by (simp add: upd_chan_def)
lemma chans_upd_chan: "chans (upd_chan w c f) = (chans w)(c := f (chans w c))" by (simp add: upd_chan_def)

text \<open>
  C5 (amended).  When \<^verbatim>\<open>dahdi_call\<close> is called on a channel whose state is
  neither Down nor Reserved it does no dialling: the dialling switch is never
  reached and no device call is made.  In state Busy it flags \<open>needbusy\<close> on
  the Real sub-channel and returns 0; in every other such state it logs a
  warning and returns \<open>-1\<close>.  Either way only \<open>dialdest\<close> has been
  overwritten.
\<close>

theorem dahdi_call_not_idle:
  assumes "tech_pvt (chans w ast) = Some p"
    and "state (chans w ast) \<noteq> AST_STATE_DOWN" and "state (chans w ast) \<noteq> AST_STATE_RESERVED"
  shows "dahdi_call k dial w ast rdest =
           (if state (chans w ast) = AST_STATE_BUSY then
              Some (0, upd_sub (upd_pvt w p (\<lambda>P. P\<lparr>dialdest := take 255 rdest\<rparr>)) p SUB_REAL
                         (\<lambda>s. s\<lparr>needbusy := True\<rparr>))
            else
              Some (- 1, emit (upd_pvt w p (\<lambda>P. P\<lparr>dialdest := take 255 rdest\<rparr>))
                           (LOG_WARNING ''dahdi_call called, neither down nor reserved''))) \<and>
         trace (snd (the (dahdi_call k dial w ast rdest))) =
           trace w @ (if state (chans w ast) = AST_STATE_BUSY then []
                      else [LOG_WARNING ''dahdi_call called, neither down nor reserved''])"
  using assms
  by (simp add: dahdi_call_def Let_def chans_upd_pvt trace_emit trace_upd_pvt trace_upd_sub)

theorem dahdi_call_not_idle_witness:
  "fst (the (dahdi_call (echo_kernel 7) (\<lambda>w c d. None) two_call_world 10 ''100'')) = - 1 \<and>
   trace (snd (the (dahdi_call (echo_kernel 7) (\<lambda>w c d. None) two_call_world 10 ''100''))) =
     [LOG_WARNING ''dahdi_call called, neither down nor reserved'']"
  using dahdi_call_not_idle [of two_call_world 10 1 "echo_kernel 7" "\<lambda>w c d. None" "''100''"]
  by (simp add: two_call_world_def idle_world_def idle_chan_def trace_emit trace_upd_pvt)

text \<open>
  C5 as stated fails in state Busy, which is neither Down nor Reserved:
  \<^verbatim>\<open>dahdi_call\<close> returns 0 there, not an error.
\<close>

theorem dahdi_call_busy_counterexample:
  "state (chans busy_world 10) \<noteq> AST_STATE_DOWN \<and>
   state (chans busy_world 10) \<noteq> AST_STATE_RESERVED \<and>
   (\<exists>w'. dahdi_call (echo_kernel 7) (\<lambda>w c d. None) busy_world 10 ''100'' = Some (0, w'))"
  by (simp add: dahdi_call_def Let_def busy_world_def idle_world_def idle_chan_def chans_upd_pvt)

section \<open>Call lifecycle: answering\<close>

lemma sub_of_upd_pvt_keep:
  "(\<And>P. subs (f P) = subs P) \<Longrightarrow> sub_of (upd_pvt w p f) q y = sub_of w q y"
  by (simp add: sub_of_def upd_pvt_def)

lemma sub_of_emit': "sub_of (emit w a) q y = sub_of w q y"
  by (simp add: sub_of_def emit_def)

lemma sub_of_devcall: "sub_of (snd (devcall k w a)) q y = sub_of w q y"
  by (simp add: devcall_def sub_of_emit')

lemma pvts_devcall: "pvts (snd (devcall k w a)) = pvts w"
  by (simp add: devcall_def pvts_emit')

lemma chans_devcall: "chans (snd (devcall k w a)) = chans w"
  by (simp add: devcall_def chans_emit)

lemma pvts_set_hook: "pvts (snd (dahdi_set_hook k w fd hs)) = pvts w"
  by (simp add: dahdi_set_hook_def Let_def pvts_devcall pvts_emit')

lemma chans_set_hook: "chans (snd (dahdi_set_hook k w fd hs)) = chans w"
  by (simp add: dahdi_set_hook_def Let_def chans_devcall chans_emit)

lemma pvts_play_tone: "pvts (snd (tone_zone_play_tone k w fd t)) = pvts w"
  by (simp add: tone_zone_play_tone_def pvts_devcall)

lemma chans_play_tone: "chans (snd (tone_zone_play_tone k w fd t)) = chans w"
  by (simp add: tone_zone_play_tone_def chans_devcall)

lemma same_but_ec_enable: "same_but_ec w (dahdi_enable_ec k w p)"
  by (simp add: same_but_ec_def dahdi_enable_ec_def Let_def pvts_devcall pvts_emit' pvts_upd_pvt
      chans_devcall chans_emit chans_upd_pvt)

lemma same_but_ec_fields:
  assumes "same_but_ec w w'"
  shows "sub_of w' q y = sub_of w q y" "powner (pvts w' q) = powner (pvts w q)"
    "sig (pvts w' q) = sig (pvts w q)" "chans w' = chans w"
proof -
  have e: "(pvts w' q)\<lparr>echocanon := False\<rparr> = (pvts w q)\<lparr>echocanon := False\<rparr>"
    and c: "chans w' = chans w"
    using assms by (simp_all add: same_but_ec_def)
  have "subs ((pvts w' q)\<lparr>echocanon := False\<rparr>) = subs ((pvts w q)\<lparr>echocanon := False\<rparr>)"
    by (simp only: e)
  then show "sub_of w' q y = sub_of w q y" by (simp add: sub_of_def)
  have "powner ((pvts w' q)\<lparr>echocanon := False\<rparr>) = powner ((pvts w q)\<lparr>echocanon := False\<rparr>)"
    by (simp only: e)
  then show "powner (pvts w' q) = powner (pvts w q)" by simp
  have "sig ((pvts w' q)\<lparr>echocanon := False\<rparr>) = sig ((pvts w q)\<lparr>echocanon := False\<rparr>)"
    by (simp only: e)
  then show "sig (pvts w' q) = sig (pvts w q)" by simp
  show "chans w' = chans w" by (rule c)
qed

lemma pvts_train_ec: "pvts (dahdi_train_ec k w p) = pvts w"
  by (simp add: dahdi_train_ec_def Let_def pvts_devcall pvts_emit')

lemma chans_train_ec: "chans (dahdi_train_ec k w p) = chans w"
  by (simp add: dahdi_train_ec_def Let_def chans_devcall chans_emit)

lemma pvts_disable_ec:
  "pvts (dahdi_disable_ec k w p) = (pvts w)(p := (pvts w p)\<lparr>echocanon := False\<rparr>)"
  by (simp add: dahdi_disable_ec_def Let_def pvts_devcall pvts_emit' pvts_upd_pvt)

lemma chans_disable_ec: "chans (dahdi_disable_ec k w p) = chans w"
  by (simp add: dahdi_disable_ec_def Let_def chans_devcall chans_emit chans_upd_pvt)

lemma sub_of_train_ec: "sub_of (dahdi_train_ec k w p) q y = sub_of w q y"
  by (simp add: sub_of_def pvts_train_ec)

lemma sub_of_set_hook: "sub_of (snd (dahdi_set_hook k w fd hs)) q y = sub_of w q y"
  by (simp add: sub_of_def pvts_set_hook)

lemma sub_of_play_tone: "sub_of (snd (tone_zone_play_tone k w fd t)) q y = sub_of w q y"
  by (simp add: sub_of_def pvts_play_tone)

lemma sub_of_enable_ec: "sub_of (dahdi_enable_ec k w p) q y = sub_of w q y"
  by (rule same_but_ec_fields [OF same_but_ec_enable])

lemma powner_enable_ec: "powner (pvts (dahdi_enable_ec k w p) q) = powner (pvts w q)"
  by (rule same_but_ec_fields [OF same_but_ec_enable])

lemma powner_swap_subs: "powner (pvts (swap_subs w p a b) q) = powner (pvts w q)"
  by (simp add: pvts_swap_subs) (subst pvts_swap_fields, simp)

lemma answer_analog_swap:
  assumes "inthreeway (sub_of w p SUB_THREEWAY)"
  shows "sub_of (snd (answer_analog k now w ast p SUB_REAL AST_STATE_RINGING)) q y =
           sub_of (swap_fields w p SUB_THREEWAY SUB_REAL) q y"
    and "powner (pvts (snd (answer_analog k now w ast p SUB_REAL AST_STATE_RINGING)) p) =
           owner (sub_of w p SUB_THREEWAY)"
  using assms
  by (simp_all add: answer_analog_def Let_def sub_of_enable_ec sub_of_train_ec sub_of_upd_pvt_keep
      sub_of_set_hook sub_of_play_tone sub_of_swap_subs sub_of_swap_fields pvts_train_ec
      powner_enable_ec pvts_upd_pvt SUB_REAL_def SUB_THREEWAY_def)


lemma pvts_ast_setstate: "pvts (ast_setstate w c s) = pvts w"
  by (simp add: ast_setstate_def pvts_upd_chan)

lemma sub_of_ast_setstate: "sub_of (ast_setstate w c s) q y = sub_of w q y"
  by (simp add: sub_of_def pvts_ast_setstate)

text \<open>
  C6 (amended).  Let a line that is not radio-style (the source's test for ``a
  radio channel'' is \<^verbatim>\<open>p->radio || p->oprmode < 0\<close>) with FXS or FXO
  signalling be answered on the channel that owns its Real sub-channel, while
  the ThreeWay sub-channel is flagged in-three-way and the channel was
  Ringing.  Then \<^verbatim>\<open>dahdi_answer\<close> returns, the Real and ThreeWay
  sub-channels have exchanged owner, channel number and three-way flag (each
  descriptor stays in its slot), and the line's owner is the new owner of the
  Real sub-channel: the channel that owned ThreeWay is now the primary one,
  and the answered channel owns the ThreeWay sub-channel.
\<close>

theorem dahdi_answer_threeway:
  assumes "tech_pvt (chans w ast) = Some p"
    and "radio (pvts w p) = 0" and "0 \<le> oprmode (pvts w p)"
    and "sig (pvts w p) \<in> {SIG_FXSLS, SIG_FXSGS, SIG_FXSKS, SIG_FXOLS, SIG_FXOGS, SIG_FXOKS}"
    and "inthreeway (sub_of w p SUB_THREEWAY)"
    and "owner (sub_of w p SUB_REAL) = Some ast"
    and "state (chans w ast) = AST_STATE_RINGING"
  shows "\<exists>res w'. dahdi_answer k now w ast = Some (res, w') \<and>
      owner (sub_of w' p SUB_REAL) = owner (sub_of w p SUB_THREEWAY) \<and>
      chan (sub_of w' p SUB_REAL) = chan (sub_of w p SUB_THREEWAY) \<and>
      inthreeway (sub_of w' p SUB_REAL) \<and>
      owner (sub_of w' p SUB_THREEWAY) = Some ast \<and>
      chan (sub_of w' p SUB_THREEWAY) = chan (sub_of w p SUB_REAL) \<and>
      inthreeway (sub_of w' p SUB_THREEWAY) = inthreeway (sub_of w p SUB_REAL) \<and>
      dfd (sub_of w' p SUB_REAL) = dfd (sub_of w p SUB_REAL) \<and>
      dfd (sub_of w' p SUB_THREEWAY) = dfd (sub_of w p SUB_THREEWAY) \<and>
      powner (pvts w' p) = owner (sub_of w p SUB_THREEWAY)"
proof -
  let ?w1 = "ast_setstate w ast AST_STATE_UP"
  have idx: "dahdi_get_index ?w1 ast p False = (0, ?w1)"
    using assms(6) by (simp add: dahdi_get_index_def sub_of_ast_setstate)
  have t: "inthreeway (sub_of ?w1 p SUB_THREEWAY)"
    using assms(5) by (simp add: sub_of_ast_setstate)
  have a: "dahdi_answer k now w ast =
      Some (answer_analog k now ?w1 ast p SUB_REAL AST_STATE_RINGING)"
    using assms(1-4,7) idx
    by (auto simp: dahdi_answer_def Let_def pvts_ast_setstate SUB_REAL_def)
  obtain res w' where r: "answer_analog k now ?w1 ast p SUB_REAL AST_STATE_RINGING = (res, w')"
    by (cases "answer_analog k now ?w1 ast p SUB_REAL AST_STATE_RINGING")
  have s: "\<And>q y. sub_of w' q y = sub_of (swap_fields ?w1 p SUB_THREEWAY SUB_REAL) q y"
    and o: "powner (pvts w' p) = owner (sub_of ?w1 p SUB_THREEWAY)"
    using answer_analog_swap [OF t, of k now ast] r by simp_all
  show ?thesis
    using assms(5,6) a r
    by (simp add: s o sub_of_swap_fields sub_of_ast_setstate SUB_REAL_def SUB_THREEWAY_def)
qed

lemma ringing_threeway_facts:
  "tech_pvt (chans ringing_threeway_world 10) = Some 4"
  "radio (pvts ringing_threeway_world 4) = 0"
  "oprmode (pvts ringing_threeway_world 4) = 0"
  "sig (pvts ringing_threeway_world 4) = SIG_FXOKS"
  "inthreeway (sub_of ringing_threeway_world 4 SUB_THREEWAY)"
  "owner (sub_of ringing_threeway_world 4 SUB_REAL) = Some 10"
  "owner (sub_of ringing_threeway_world 4 SUB_THREEWAY) = Some 11"
  "state (chans ringing_threeway_world 10) = AST_STATE_RINGING"
  by (simp_all add: ringing_threeway_world_def idle_world_def idle_pvt_def idle_chan_def
      sub_of_def SUB_REAL_def SUB_THREEWAY_def)

theorem dahdi_answer_threeway_witness:
  "\<exists>res w'. dahdi_answer (echo_kernel 7) 0 ringing_threeway_world 10 = Some (res, w') \<and>
     owner (sub_of w' 4 SUB_REAL) = Some 11 \<and> owner (sub_of w' 4 SUB_THREEWAY) = Some 10 \<and>
     powner (pvts w' 4) = Some 11"
  using dahdi_answer_threeway [of ringing_threeway_world 10 4 "echo_kernel 7" 0]
  by (simp add: ringing_threeway_facts) blast

text \<open>
  C6 as stated fails: the answered channel does not become the primary one.
  After the answer on channel 10, ringing on the Real sub-channel of line 4,
  the line's owner and the owner of Real is channel 11, the call that was on
  ThreeWay, and channel 10 owns ThreeWay.
\<close>

theorem dahdi_answer_primary_counterexample:
  "owner (sub_of ringing_threeway_world 4 SUB_REAL) = Some 10 \<and>
   state (chans ringing_threeway_world 10) = AST_STATE_RINGING \<and>
   inthreeway (sub_of ringing_threeway_world 4 SUB_THREEWAY) \<and>
   dahdi_answer (echo_kernel 7) 0 ringing_threeway_world 10 \<noteq> None \<and>
   owner (sub_of (snd (the (dahdi_answer (echo_kernel 7) 0 ringing_threeway_world 10))) 4 SUB_REAL) =
     Some 11 \<and>
   powner (pvts (snd (the (dahdi_answer (echo_kernel 7) 0 ringing_threeway_world 10))) 4) = Some 11 \<and>
   owner (sub_of (snd (the (dahdi_answer (echo_kernel 7) 0 ringing_threeway_world 10))) 4 SUB_THREEWAY) =
     Some 10"
  by code_simp

section \<open>Native bridge loop\<close>









section \<open>Signalling events: flash and on-hook with a three-way leg\<close>

lemma same_fixed_update_conf: "same_fixed w (update_conf k w p)"
proof -
  obtain u sl where i: "isslavenative w p = (u, sl)" by (cases "isslavenative w p")
  let ?wn1 = "fold (conf_sub_step k p) [0..<3] (w, 0)"
  let ?wn2 = "fold (conf_slave_step k p u) [0..<MAX_SLAVES] ?wn1"
  have 1: "same_fixed w (fst ?wn1)" by (rule same_fixed_sub_loop)
  have "same_fixed (fst ?wn1) (fst ?wn2)"
    using same_fixed_slave_loop [of "fst ?wn1" k p u "[0..<MAX_SLAVES]" "snd ?wn1"] by simp
  with 1 have 2: "same_fixed w (fst ?wn2)" by (rule same_fixed_trans)
  define wn3 where "wn3 =
     (if inconference (pvts (fst ?wn2) p) \<and> \<not> inthreeway (sub_of (fst ?wn2) p SUB_REAL) then
        if u then
          (case sl of
             Some q \<Rightarrow> (snd (conf_add k (fst ?wn2) p (p, SUB_REAL) SUB_REAL (GET_CHANNEL (fst ?wn2) q)), snd ?wn2)
           | None \<Rightarrow> ?wn2)
        else (snd (conf_add k (fst ?wn2) p (p, SUB_REAL) SUB_REAL 0), snd ?wn2 + 1)
      else ?wn2)"
  have "same_fixed (fst ?wn2) (fst wn3)"
    by (simp add: wn3_def same_fixed_refl same_fixed_conf_add split: option.split)
  with 2 have 3: "same_fixed w (fst wn3)" by (rule same_fixed_trans)
  define w4 where "w4 =
     (case master (pvts (fst wn3) p) of
        Some m \<Rightarrow>
          if fst (isslavenative (fst wn3) m)
            then snd (conf_add k (fst wn3) m (p, SUB_REAL) SUB_REAL (GET_CHANNEL (fst wn3) m))
          else snd (conf_add k (fst wn3) m (p, SUB_REAL) SUB_REAL 0)
      | None \<Rightarrow> fst wn3)"
  have "same_fixed (fst wn3) w4"
    by (simp add: w4_def same_fixed_refl same_fixed_conf_add split: option.split)
  with 3 have 4: "same_fixed w w4" by (rule same_fixed_trans)
  have u: "update_conf k w p = (if snd wn3 = 0 then upd_pvt w4 p (\<lambda>P. P\<lparr>confno_p := - 1\<rparr>) else w4)"
    by (simp only: update_conf_def i Let_def wn3_def w4_def prod.case)
  show ?thesis
    unfolding u using 4 same_fixed_trans [OF 4 same_fixed_confno] by simp
qed


lemma chans_swap_subs_fields:
  "state (chans (swap_subs w p a b) c) = state (chans w c)"
  "softhangup (chans (swap_subs w p a b) c) = softhangup (chans w c)"
  "bridged (chans (swap_subs w p a b) c) = bridged (chans w c)"
  "pbx (chans (swap_subs w p a b) c) = pbx (chans w c)"
  "tech_pvt (chans (swap_subs w p a b) c) = tech_pvt (chans w c)"
  by (simp_all add: swap_subs_def Let_def rehome_fd_def wakeup_sub_def ast_channel_set_fd_def
      ast_queue_frame_def upd_chan_def chans_swap_fields split: option.split)

lemma chans_queue_control_fields:
  "state (chans (ast_queue_control w c ctl) d) = state (chans w d)"
  "softhangup (chans (ast_queue_control w c ctl) d) = softhangup (chans w d)"
  "bridged (chans (ast_queue_control w c ctl) d) = bridged (chans w d)"
  "pbx (chans (ast_queue_control w c ctl) d) = pbx (chans w d)"
  "tech_pvt (chans (ast_queue_control w c ctl) d) = tech_pvt (chans w d)"
  by (simp_all add: ast_queue_control_def ast_queue_frame_def upd_chan_def)

lemma pvts_queue_control: "pvts (ast_queue_control w c ctl) = pvts w"
  by (simp add: ast_queue_control_def ast_queue_frame_def upd_chan_def)

lemma sub_of_queue_control: "sub_of (ast_queue_control w c ctl) q y = sub_of w q y"
  by (simp add: sub_of_def pvts_queue_control)

lemma sub_distinct:
  "SUB_THREEWAY \<noteq> SUB_REAL" "SUB_REAL \<noteq> SUB_THREEWAY" "SUB_CALLWAIT \<noteq> SUB_REAL"
  "SUB_REAL \<noteq> SUB_CALLWAIT" "SUB_CALLWAIT \<noteq> SUB_THREEWAY" "SUB_THREEWAY \<noteq> SUB_CALLWAIT"
  by (simp_all add: SUB_REAL_def SUB_CALLWAIT_def SUB_THREEWAY_def)

lemma flash_threeway_merges:
  assumes "\<not> inthreeway (sub_of w p SUB_THREEWAY)" and "state (chans w ast) = AST_STATE_UP"
  shows "\<exists>w'. flash_threeway k w ast p = Some w' \<and>
           inthreeway (sub_of w' p SUB_REAL) \<and> inthreeway (sub_of w' p SUB_THREEWAY) \<and>
           (\<forall>c. softhangup (chans w' c) = softhangup (chans w c)) \<and>
           flashtime (pvts w' p) = flashtime (pvts w p)"
proof -
  let ?w2 = "upd_sub (upd_sub w p SUB_THREEWAY (\<lambda>s. s\<lparr>inthreeway := True\<rparr>)) p SUB_REAL
               (\<lambda>s. s\<lparr>inthreeway := True\<rparr>)"
  let ?w3 = "swap_subs ?w2 p SUB_THREEWAY SUB_REAL"
  let ?w4 = "case owner (sub_of ?w3 p SUB_REAL) of
               Some c \<Rightarrow> if bridged (chans ?w3 c) \<noteq> None
                         then ast_queue_control ?w3 c AST_CONTROL_UNHOLD else ?w3
             | None \<Rightarrow> ?w3"
  let ?w5 = "upd_sub ?w4 p SUB_REAL (\<lambda>s. s\<lparr>needunhold := True\<rparr>)"
  let ?w6 = "upd_pvt ?w5 p (\<lambda>P. P\<lparr>powner := owner (sub_of ?w5 p SUB_REAL)\<rparr>)"
  have c2: "chans ?w2 = chans w" by (simp add: chans_upd_sub)
  have s4: "\<And>q y. sub_of ?w4 q y = sub_of ?w3 q y"
    by (simp add: sub_of_queue_control split: option.split)
  have st4: "\<And>d. state (chans ?w4 d) = state (chans w d)"
      and sh4: "\<And>d. softhangup (chans ?w4 d) = softhangup (chans w d)"
    by (simp_all add: chans_queue_control_fields chans_swap_subs_fields c2 split: option.split)
  have f: "flash_threeway k w ast p = Some ?w6"
    using assms
    by (simp add: flash_threeway_def Let_def c2 chans_upd_pvt chans_upd_sub st4)
  have i3: "inthreeway (sub_of ?w3 p SUB_REAL)" "inthreeway (sub_of ?w3 p SUB_THREEWAY)"
    by (simp_all add: sub_of_swap_subs sub_of_swap_fields sub_of_upd_sub SUB_REAL_def SUB_THREEWAY_def)
  have i6: "inthreeway (sub_of ?w6 p SUB_REAL)" "inthreeway (sub_of ?w6 p SUB_THREEWAY)"
    using i3 by (simp_all add: sub_of_upd_pvt_keep sub_of_upd_sub s4 sub_distinct)
  have sh6: "\<And>d. softhangup (chans ?w6 d) = softhangup (chans w d)"
    by (simp add: chans_upd_pvt chans_upd_sub sh4)
  have p4: "pvts ?w4 = pvts ?w3" by (simp add: pvts_queue_control split: option.split)
  have fl: "flashtime (pvts ?w6 p) = flashtime (pvts w p)"
    apply (simp add: pvts_upd_pvt pvts_upd_sub p4 pvts_swap_subs)
    apply (subst pvts_swap_fields)
    apply (simp add: pvts_upd_sub)
    done
  show ?thesis using f i6 sh6 fl by simp
qed

lemma get_index_real:
  "owner (sub_of w p SUB_REAL) = Some ast \<Longrightarrow> dahdi_get_index w ast p nullok = (0, w)"
  by (simp add: dahdi_get_index_def)

lemma flashtime_same_fixed:
  assumes "same_fixed w w'"
  shows "flashtime (pvts w' q) = flashtime (pvts w q)"
proof -
  have "fixed_part (pvts w' q) = fixed_part (pvts w q)" using assms by (simp add: same_fixed_def)
  then have "flashtime (fixed_part (pvts w' q)) = flashtime (fixed_part (pvts w q))" by simp
  then show ?thesis by (simp add: fixed_part_def)
qed

lemma winkflash_merges:
  assumes tp: "tech_pvt (chans w ast) = Some p" and own: "owner (sub_of w p SUB_REAL) = Some ast"
    and al: "\<not> inalarm (pvts w p)" and ra: "radio (pvts w p) = 0"
    and op: "0 \<le> oprmode (pvts w p)" "oprmode (pvts w p) \<le> 1"
    and sg: "outsigmod (pvts w p) = None" "sig (pvts w p) \<in> {SIG_FXOLS, SIG_FXOGS, SIG_FXOKS}"
    and cw: "owner (sub_of w p SUB_CALLWAIT) = None"
    and tw: "owner (sub_of w p SUB_THREEWAY) = Some tw"
    and nt: "\<not> inthreeway (sub_of w p SUB_THREEWAY)" and up: "state (chans w ast) = AST_STATE_UP"
  shows "\<exists>w'. dahdi_handle_event k br w ast DAHDI_EVENT_WINKFLASH now = Some (Some ast_null_frame, w') \<and>
           inthreeway (sub_of w' p SUB_REAL) \<and> inthreeway (sub_of w' p SUB_THREEWAY) \<and>
           (\<forall>c. softhangup (chans w' c) = softhangup (chans w c)) \<and>
           flashtime (pvts w' p) = now"
proof -
  let ?w1 = "upd_pvt (upd_pvt w p (\<lambda>P. P\<lparr>flashtime := now\<rparr>)) p (\<lambda>P. P\<lparr>callwaitcas := 0\<rparr>)"
  have s1: "\<And>q y. sub_of ?w1 q y = sub_of w q y" by (simp add: sub_of_upd_pvt_keep)
  have c1: "chans ?w1 = chans w" by (simp add: chans_upd_pvt)
  have f1: "flashtime (pvts ?w1 p) = now" by (simp add: pvts_upd_pvt)
  obtain w2 where f: "flash_threeway k ?w1 ast p = Some w2"
      and i2: "inthreeway (sub_of w2 p SUB_REAL)" "inthreeway (sub_of w2 p SUB_THREEWAY)"
      and h2: "\<forall>c. softhangup (chans w2 c) = softhangup (chans ?w1 c)"
      and f2: "flashtime (pvts w2 p) = flashtime (pvts ?w1 p)"
    using flash_threeway_merges [of ?w1 p ast k] nt up by (auto simp: s1 c1)
  let ?w3 = "update_conf k w2 p"
  have sf: "same_fixed w2 ?w3" by (rule same_fixed_update_conf)
  have i3: "inthreeway (sub_of ?w3 p SUB_REAL)" "inthreeway (sub_of ?w3 p SUB_THREEWAY)"
    using i2 by (simp_all add: same_fixed_fields [OF sf])
  have c3: "chans ?w3 = chans w2" using sf by (simp add: same_fixed_def)
  have f3: "flashtime (pvts ?w3 p) = now"
    using flashtime_same_fixed [OF sf, of p] f2 f1 by simp
  have wf: "winkflash_fxo k br (upd_pvt w p (\<lambda>P. P\<lparr>flashtime := now\<rparr>)) ast p 0 = Some ?w3"
    using cw tw f unfolding winkflash_fxo_def Let_def
    by (simp add: s1 SUB_REAL_def)
  have "dahdi_handle_event k br w ast DAHDI_EVENT_WINKFLASH now = Some (Some ast_null_frame, ?w3)"
    using tp al ra op sg wf
    by (auto simp: dahdi_handle_event_def Let_def get_index_real [OF own] winkflash_event_def)
  with i3 h2 f3 show ?thesis by (simp add: c3 c1)
qed

text \<open>The flash handler overwrites \<open>flashtime\<close> before anything could read it.\<close>

lemma winkflash_ignores_flashtime:
  assumes tp: "tech_pvt (chans w ast) = Some p" and own: "owner (sub_of w p SUB_REAL) = Some ast"
    and al: "\<not> inalarm (pvts w p)" and ra: "radio (pvts w p) = 0"
    and op: "0 \<le> oprmode (pvts w p)" "oprmode (pvts w p) \<le> 1"
  shows "dahdi_handle_event k br (upd_pvt w p (\<lambda>P. P\<lparr>flashtime := t\<rparr>)) ast DAHDI_EVENT_WINKFLASH now =
         dahdi_handle_event k br w ast DAHDI_EVENT_WINKFLASH now"
proof -
  let ?wt = "upd_pvt w p (\<lambda>P. P\<lparr>flashtime := t\<rparr>)"
  have own': "owner (sub_of ?wt p SUB_REAL) = Some ast" using own by (simp add: sub_of_upd_pvt_keep)
  have tp': "tech_pvt (chans ?wt ast) = Some p" using tp by (simp add: chans_upd_pvt)
  have e: "upd_pvt ?wt p (\<lambda>P. P\<lparr>flashtime := now\<rparr>) = upd_pvt w p (\<lambda>P. P\<lparr>flashtime := now\<rparr>)"
    by (simp add: upd_pvt_def)
  have "winkflash_event k br ?wt ast p 0 s now = winkflash_event k br w ast p 0 s now" for s
    using al ra op by (simp add: winkflash_event_def Let_def pvts_upd_pvt e)
  moreover have "sig (pvts ?wt p) = sig (pvts w p)" "outsigmod (pvts ?wt p) = outsigmod (pvts w p)"
    by (simp_all add: pvts_upd_pvt)
  ultimately show ?thesis
    using tp tp'
    by (simp add: dahdi_handle_event_def Let_def get_index_real [OF own] get_index_real [OF own']
        cong: option.case_cong)
qed


lemma flash_world_facts:
  "tech_pvt (chans flash_world 10) = Some 4"
  "owner (sub_of flash_world 4 SUB_REAL) = Some 10"
  "owner (sub_of flash_world 4 SUB_CALLWAIT) = None"
  "owner (sub_of flash_world 4 SUB_THREEWAY) = Some 11"
  "inalarm (pvts flash_world 4) = False"
  "radio (pvts flash_world 4) = 0" "oprmode (pvts flash_world 4) = 0"
  "outsigmod (pvts flash_world 4) = None" "sig (pvts flash_world 4) = SIG_FXOKS"
  "inthreeway (sub_of flash_world 4 SUB_REAL) = False"
  "inthreeway (sub_of flash_world 4 SUB_THREEWAY) = False"
  "state (chans flash_world 10) = AST_STATE_UP"
  "flashtime (pvts flash_world 4) = 1000"
  "softhangup (chans flash_world 10) = 0" "softhangup (chans flash_world 11) = 0"
  "dfd (sub_of flash_world 4 SUB_THREEWAY) = 8"
  by (simp_all add: flash_world_def idle_world_def idle_pvt_def idle_chan_def idle_sub_def
      sub_of_def SUB_REAL_def SUB_CALLWAIT_def SUB_THREEWAY_def)

text \<open>
  C4 as stated fails: on a kewlstart line with an allocated three-way leg, a
  second flash 500 ms after the previous one merges the two calls into a
  conference (both sub-channels are flagged in-three-way) and hangs up neither
  leg.  The flash handler never reads \<open>flashtime\<close>.
\<close>

theorem flash_in_window_counterexample:
  "dfd (sub_of flash_world 4 SUB_THREEWAY) > - 1 \<and>
   mssinceflash 1500 (flashtime (pvts flash_world 4)) < MIN_MS_SINCE_FLASH \<and>
   dahdi_handle_event (echo_kernel 7) no_branches flash_world 10 DAHDI_EVENT_WINKFLASH 1500 \<noteq> None \<and>
   fst (the (dahdi_handle_event (echo_kernel 7) no_branches flash_world 10
              DAHDI_EVENT_WINKFLASH 1500)) = Some ast_null_frame \<and>
   inthreeway (sub_of (snd (the (dahdi_handle_event (echo_kernel 7) no_branches flash_world 10
              DAHDI_EVENT_WINKFLASH 1500))) 4 SUB_REAL) \<and>
   inthreeway (sub_of (snd (the (dahdi_handle_event (echo_kernel 7) no_branches flash_world 10
              DAHDI_EVENT_WINKFLASH 1500))) 4 SUB_THREEWAY) \<and>
   softhangup (chans (snd (the (dahdi_handle_event (echo_kernel 7) no_branches flash_world 10
              DAHDI_EVENT_WINKFLASH 1500))) 10) = 0 \<and>
   softhangup (chans (snd (the (dahdi_handle_event (echo_kernel 7) no_branches flash_world 10
              DAHDI_EVENT_WINKFLASH 1500))) 11) = 0"
proof -
  have m: "mssinceflash 1500 (flashtime (pvts flash_world 4)) < MIN_MS_SINCE_FLASH"
    by (simp add: mssinceflash_def flash_world_facts MIN_MS_SINCE_FLASH_def)
  have "\<exists>w'. dahdi_handle_event (echo_kernel 7) no_branches flash_world 10
        DAHDI_EVENT_WINKFLASH 1500 = Some (Some ast_null_frame, w') \<and>
      inthreeway (sub_of w' 4 SUB_REAL) \<and> inthreeway (sub_of w' 4 SUB_THREEWAY) \<and>
      (\<forall>c. softhangup (chans w' c) = softhangup (chans flash_world c)) \<and>
      flashtime (pvts w' 4) = 1500"
    using winkflash_merges [where tw = 11 and w = flash_world and ast = 10 and p = 4
        and k = "echo_kernel 7" and br = no_branches and now = 1500]
    by (simp add: flash_world_facts)
  then obtain w' where
      "dahdi_handle_event (echo_kernel 7) no_branches flash_world 10 DAHDI_EVENT_WINKFLASH 1500 =
         Some (Some ast_null_frame, w')"
      "inthreeway (sub_of w' 4 SUB_REAL)" "inthreeway (sub_of w' 4 SUB_THREEWAY)"
      "\<forall>c. softhangup (chans w' c) = softhangup (chans flash_world c)"
    by blast
  with m show ?thesis by (simp add: flash_world_facts)
qed

lemma chans_soft_hangup_dev:
  "chans (soft_hangup_dev w c) =
     (chans w)(c := (chans w c)\<lparr>softhangup := softhangup (chans w c) OR AST_SOFTHANGUP_DEV\<rparr>)"
  by (simp add: soft_hangup_dev_def upd_chan_def)

lemma pvts_soft_hangup_dev: "pvts (soft_hangup_dev w c) = pvts w"
  by (simp add: soft_hangup_dev_def upd_chan_def)

lemma pvts_queue_hangup: "pvts (ast_queue_hangup w c) = pvts w"
  by (simp add: ast_queue_hangup_def pvts_queue_control pvts_soft_hangup_dev)

lemma chans_queue_hangup:
  "chans (ast_queue_hangup w c) =
     (chans w)(c := (chans w c)\<lparr>softhangup := softhangup (chans w c) OR AST_SOFTHANGUP_DEV,
        readq := readq (chans w c) @ [\<lparr>ftype = AST_FRAME_CONTROL, fsubclass = AST_CONTROL_HANGUP\<rparr>]\<rparr>)"
  by (simp add: ast_queue_hangup_def ast_queue_control_def ast_queue_frame_def upd_chan_def
      soft_hangup_dev_def)

lemma mssinceflash_small:
  "0 \<le> now - flash \<Longrightarrow> now - flash < MIN_MS_SINCE_FLASH \<Longrightarrow> mssinceflash now flash = now - flash"
  by (simp add: mssinceflash_def MIN_MS_SINCE_FLASH_def)

lemma onhook_in_window:
  assumes tp: "tech_pvt (chans w ast) = Some p" and own: "owner (sub_of w p SUB_REAL) = Some ast"
    and ra: "radio (pvts w p) = 0" and op: "0 \<le> oprmode (pvts w p)"
    and sg: "sig (pvts w p) \<in> {SIG_FXOLS, SIG_FXOGS, SIG_FXOKS}"
    and cw: "owner (sub_of w p SUB_CALLWAIT) = None"
    and tw: "owner (sub_of w p SUB_THREEWAY) = Some tw"
    and t0: "0 \<le> now - flashtime (pvts w p)" and t1: "now - flashtime (pvts w p) < MIN_MS_SINCE_FLASH"
  shows "\<exists>w'. dahdi_handle_event k br w ast DAHDI_EVENT_ONHOOK now = Some (None, w') \<and>
           softhangup (chans w' tw) = softhangup (chans w tw) OR AST_SOFTHANGUP_DEV \<and>
           readq (chans w' tw) =
             readq (chans w tw) @ [\<lparr>ftype = AST_FRAME_CONTROL, fsubclass = AST_CONTROL_HANGUP\<rparr>] \<and>
           (\<forall>q y. sub_of w' q y = sub_of w q y) \<and>
           (\<forall>q. powner (pvts w' q) = powner (pvts w q))"
proof -
  let ?w1 = "upd_pvt w p (\<lambda>P. P\<lparr>onhooktime := int_of_time (now div 1000), msgstate := - 1\<rparr>)"
  let ?w2 = "soft_hangup_dev (ast_queue_hangup ?w1 tw) tw"
  let ?w3 = "dahdi_disable_ec k ?w2 p"
  have s1: "\<And>q y. sub_of ?w1 q y = sub_of w q y" by (simp add: sub_of_upd_pvt_keep)
  have f1: "flashtime (pvts ?w1 p) = flashtime (pvts w p)" by (simp add: pvts_upd_pvt)
  have ms: "mssinceflash now (flashtime (pvts ?w1 p)) < MIN_MS_SINCE_FLASH"
    using mssinceflash_small [OF t0 t1] t1 by (simp add: f1)
  have o: "onhook_fxo k w ast p 0 now = Some (False, ?w2)"
    using cw tw ms unfolding onhook_fxo_def Let_def
    by (simp add: s1 SUB_REAL_def onhook_threeway_def)
  have e: "onhook_event k br w ast p 0 now = Some (None, ?w3)"
    using ra op sg o by (auto simp: onhook_event_def)
  have h: "dahdi_handle_event k br w ast DAHDI_EVENT_ONHOOK now = Some (None, ?w3)"
    using tp e by (simp add: dahdi_handle_event_def Let_def get_index_real [OF own])
  have p2: "pvts ?w2 = pvts ?w1" by (simp add: pvts_soft_hangup_dev pvts_queue_hangup)
  have c3: "chans ?w3 = chans ?w2" by (rule chans_disable_ec)
  have sh: "softhangup (chans ?w3 tw) = softhangup (chans w tw) OR AST_SOFTHANGUP_DEV"
    by (simp add: c3 chans_soft_hangup_dev chans_queue_hangup chans_upd_pvt or.assoc)
  have rq: "readq (chans ?w3 tw) =
      readq (chans w tw) @ [\<lparr>ftype = AST_FRAME_CONTROL, fsubclass = AST_CONTROL_HANGUP\<rparr>]"
    by (simp add: c3 chans_soft_hangup_dev chans_queue_hangup chans_upd_pvt)
  have sb: "\<And>q y. sub_of ?w3 q y = sub_of w q y"
    by (simp add: sub_of_def pvts_disable_ec p2 pvts_upd_pvt)
  have po: "\<And>q. powner (pvts ?w3 q) = powner (pvts w q)"
    by (simp add: pvts_disable_ec p2 pvts_upd_pvt)
  show ?thesis using h sh rq sb po by simp
qed


text \<open>
  C4 (amended).  The debounce window guards the on-hook event, not the flash.
  Take a line with FXO signalling (a kewlstart, loop-start or ground-start FXS
  port) that is not radio-style, with no call waiting and with a three-way
  leg, and an event on the channel of its Real leg.  An on-hook less than
  \<open>MIN_MS_SINCE_FLASH\<close> (2000) milliseconds after the last flash is taken for
  a bounce: a hang-up is queued on the three-way channel and its soft hang-up
  flag is set, the handler returns NULL, which hangs up the Real leg, and no
  sub-channel is swapped, merged or released.  A flash (line not in alarm,
  operator mode 0 or 1) has the same outcome whatever the time of the previous
  flash; with the Real call up and the three-way leg not yet merged, it flags
  both legs in-three-way, hangs up neither and records its own time.
\<close>

theorem onhook_bounce:
  assumes tp: "tech_pvt (chans w ast) = Some p" and own: "owner (sub_of w p SUB_REAL) = Some ast"
    and ra: "radio (pvts w p) = 0" and op: "0 \<le> oprmode (pvts w p)"
    and sg: "sig (pvts w p) \<in> {SIG_FXOLS, SIG_FXOGS, SIG_FXOKS}"
    and cw: "owner (sub_of w p SUB_CALLWAIT) = None"
    and tw: "owner (sub_of w p SUB_THREEWAY) = Some tw"
  shows "(0 \<le> now - flashtime (pvts w p) \<and> now - flashtime (pvts w p) < MIN_MS_SINCE_FLASH \<longrightarrow>
          (\<exists>w'. dahdi_handle_event k br w ast DAHDI_EVENT_ONHOOK now = Some (None, w') \<and>
             softhangup (chans w' tw) = softhangup (chans w tw) OR AST_SOFTHANGUP_DEV \<and>
             readq (chans w' tw) =
               readq (chans w tw) @ [\<lparr>ftype = AST_FRAME_CONTROL, fsubclass = AST_CONTROL_HANGUP\<rparr>] \<and>
             (\<forall>q y. sub_of w' q y = sub_of w q y) \<and>
             (\<forall>q. powner (pvts w' q) = powner (pvts w q)))) \<and>
         (\<not> inalarm (pvts w p) \<and> oprmode (pvts w p) \<le> 1 \<longrightarrow>
          (\<forall>t. dahdi_handle_event k br (upd_pvt w p (\<lambda>P. P\<lparr>flashtime := t\<rparr>)) ast
                 DAHDI_EVENT_WINKFLASH now =
               dahdi_handle_event k br w ast DAHDI_EVENT_WINKFLASH now)) \<and>
         (\<not> inalarm (pvts w p) \<and> oprmode (pvts w p) \<le> 1 \<and> outsigmod (pvts w p) = None \<and>
          \<not> inthreeway (sub_of w p SUB_THREEWAY) \<and> state (chans w ast) = AST_STATE_UP \<longrightarrow>
          (\<exists>w'. dahdi_handle_event k br w ast DAHDI_EVENT_WINKFLASH now =
                  Some (Some ast_null_frame, w') \<and>
             inthreeway (sub_of w' p SUB_REAL) \<and> inthreeway (sub_of w' p SUB_THREEWAY) \<and>
             (\<forall>c. softhangup (chans w' c) = softhangup (chans w c)) \<and>
             flashtime (pvts w' p) = now))"
proof (intro conjI impI allI)
  assume "0 \<le> now - flashtime (pvts w p) \<and> now - flashtime (pvts w p) < MIN_MS_SINCE_FLASH"
  then have t: "0 \<le> now - flashtime (pvts w p)" "now - flashtime (pvts w p) < MIN_MS_SINCE_FLASH"
    by simp_all
  from tp own ra op sg cw tw t
  show "\<exists>w'. dahdi_handle_event k br w ast DAHDI_EVENT_ONHOOK now = Some (None, w') \<and>
             softhangup (chans w' tw) = softhangup (chans w tw) OR AST_SOFTHANGUP_DEV \<and>
             readq (chans w' tw) =
               readq (chans w tw) @ [\<lparr>ftype = AST_FRAME_CONTROL, fsubclass = AST_CONTROL_HANGUP\<rparr>] \<and>
             (\<forall>q y. sub_of w' q y = sub_of w q y) \<and>
             (\<forall>q. powner (pvts w' q) = powner (pvts w q))"
    by (rule onhook_in_window)
next
  fix t
  assume "\<not> inalarm (pvts w p) \<and> oprmode (pvts w p) \<le> 1"
  then have a: "\<not> inalarm (pvts w p)" "oprmode (pvts w p) \<le> 1" by simp_all
  from tp own a(1) ra op a(2)
  show "dahdi_handle_event k br (upd_pvt w p (\<lambda>P. P\<lparr>flashtime := t\<rparr>)) ast
                 DAHDI_EVENT_WINKFLASH now =
               dahdi_handle_event k br w ast DAHDI_EVENT_WINKFLASH now"
    by (rule winkflash_ignores_flashtime)
next
  assume "\<not> inalarm (pvts w p) \<and> oprmode (pvts w p) \<le> 1 \<and> outsigmod (pvts w p) = None \<and>
          \<not> inthreeway (sub_of w p SUB_THREEWAY) \<and> state (chans w ast) = AST_STATE_UP"
  then have a: "\<not> inalarm (pvts w p)" "oprmode (pvts w p) \<le> 1" "outsigmod (pvts w p) = None"
      "\<not> inthreeway (sub_of w p SUB_THREEWAY)" "state (chans w ast) = AST_STATE_UP"
    by simp_all
  from tp own a(1) ra op a(2,3) sg cw tw a(4,5)
  show "\<exists>w'. dahdi_handle_event k br w ast DAHDI_EVENT_WINKFLASH now =
                  Some (Some ast_null_frame, w') \<and>
             inthreeway (sub_of w' p SUB_REAL) \<and> inthreeway (sub_of w' p SUB_THREEWAY) \<and>
             (\<forall>c. softhangup (chans w' c) = softhangup (chans w c)) \<and>
             flashtime (pvts w' p) = now"
    by (rule winkflash_merges)
qed

theorem onhook_bounce_witness:
  "(\<exists>w'. dahdi_handle_event (echo_kernel 7) no_branches flash_world 10 DAHDI_EVENT_ONHOOK 1500 =
           Some (None, w') \<and>
         softhangup (chans w' 11) = AST_SOFTHANGUP_DEV \<and>
         inthreeway (sub_of w' 4 SUB_REAL) = False) \<and>
   dahdi_handle_event (echo_kernel 7) no_branches
       (upd_pvt flash_world 4 (\<lambda>P. P\<lparr>flashtime := - 5000\<rparr>)) 10 DAHDI_EVENT_WINKFLASH 1500 =
     dahdi_handle_event (echo_kernel 7) no_branches flash_world 10 DAHDI_EVENT_WINKFLASH 1500 \<and>
   (\<exists>w'. dahdi_handle_event (echo_kernel 7) no_branches flash_world 10 DAHDI_EVENT_WINKFLASH 1500 =
            Some (Some ast_null_frame, w') \<and>
          inthreeway (sub_of w' 4 SUB_REAL) \<and> inthreeway (sub_of w' 4 SUB_THREEWAY) \<and>
          softhangup (chans w' 10) = 0 \<and> softhangup (chans w' 11) = 0 \<and>
          flashtime (pvts w' 4) = 1500)"
proof -
  note t = onhook_bounce [of flash_world 10 4 11 1500 "echo_kernel 7" no_branches]
  from t obtain w' where
      "dahdi_handle_event (echo_kernel 7) no_branches flash_world 10 DAHDI_EVENT_ONHOOK 1500 =
         Some (None, w')"
      "softhangup (chans w' 11) = softhangup (chans flash_world 11) OR AST_SOFTHANGUP_DEV"
      "\<forall>q y. sub_of w' q y = sub_of flash_world q y"
    by (auto simp: flash_world_facts MIN_MS_SINCE_FLASH_def)
  then have 1: "\<exists>w'. dahdi_handle_event (echo_kernel 7) no_branches flash_world 10
        DAHDI_EVENT_ONHOOK 1500 = Some (None, w') \<and>
      softhangup (chans w' 11) = AST_SOFTHANGUP_DEV \<and> inthreeway (sub_of w' 4 SUB_REAL) = False"
    by (auto simp: flash_world_facts)
  from t have 2: "dahdi_handle_event (echo_kernel 7) no_branches
       (upd_pvt flash_world 4 (\<lambda>P. P\<lparr>flashtime := - 5000\<rparr>)) 10 DAHDI_EVENT_WINKFLASH 1500 =
     dahdi_handle_event (echo_kernel 7) no_branches flash_world 10 DAHDI_EVENT_WINKFLASH 1500"
    by (simp add: flash_world_facts)
  from t obtain w2 where
      "dahdi_handle_event (echo_kernel 7) no_branches flash_world 10 DAHDI_EVENT_WINKFLASH 1500 =
         Some (Some ast_null_frame, w2)"
      "inthreeway (sub_of w2 4 SUB_REAL)" "inthreeway (sub_of w2 4 SUB_THREEWAY)"
      "\<forall>c. softhangup (chans w2 c) = softhangup (chans flash_world c)"
      "flashtime (pvts w2 4) = 1500"
    by (auto simp: flash_world_facts)
  then have 3: "\<exists>w'. dahdi_handle_event (echo_kernel 7) no_branches flash_world 10
        DAHDI_EVENT_WINKFLASH 1500 = Some (Some ast_null_frame, w') \<and>
      inthreeway (sub_of w' 4 SUB_REAL) \<and> inthreeway (sub_of w' 4 SUB_THREEWAY) \<and>
      softhangup (chans w' 10) = 0 \<and> softhangup (chans w' 11) = 0 \<and> flashtime (pvts w' 4) = 1500"
    by (auto simp: flash_world_facts)
  from 1 2 3 show ?thesis by simp
qed


section \<open>Settled conference targets\<close>

text \<open>
  A driver that allocates conference \<open>N\<close> on request, and what it means for a
  target of \<^verbatim>\<open>conf_add\<close> or \<^verbatim>\<open>conf_del\<close> to be settled.
\<close>

lemma allocatingD:
  assumes "allocating k N"
  shows "fst (setconf k n fd z) = 0" "confmode (snd (setconf k n fd z)) = confmode z"
    "confno (snd (setconf k n fd z)) = (if confno z = - 1 then N else confno z)"
  using assms unfolding allocating_def by blast+

lemma allocating_accepting: "allocating k N \<Longrightarrow> accepting k"
  unfolding allocating_def accepting_def by auto






lemma confno_p_upd_sub: "confno_p (pvts (upd_sub w p x f) q) = confno_p (pvts w q)"
  by (simp add: upd_sub_def upd_pvt_def)

lemma csub_emit: "csub (emit w a) c = csub w c"
  by (simp add: csub_def sub_of_emit)


lemma csub_upd_sub:
  "csub (upd_sub w p x f) c = (if c = (p, x) then f (csub w c) else csub w c)"
  by (cases c) (auto simp: csub_def sub_of_upd_sub)

text \<open>The conference number of the owner after \<open>conf_add\<close>, and of every other line.\<close>

lemma confno_conf_add:
  assumes "allocating k N"
  shows "confno_step N p w (snd (conf_add k w p c i s))"
    and "q \<noteq> p \<Longrightarrow> confno_p (pvts (snd (conf_add k w p c i s)) q) = confno_p (pvts w q)"
  by (auto simp: confno_step_def conf_add_def Let_def allocatingD [OF assms] pvts_emit
      confno_p_upd_sub pvts_upd_pvt confno_conf_add_zi)








lemma confno_step_refl: "confno_step N p w w"
  by (simp add: confno_step_def)

lemma confno_step_trans:
  "N \<noteq> - 1 \<Longrightarrow> confno_step N p w w1 \<Longrightarrow> confno_step N p w1 w2 \<Longrightarrow> confno_step N p w w2"
  by (auto simp: confno_step_def)

lemma same_fixed_sym: "same_fixed w w' \<Longrightarrow> same_fixed w' w"
  by (simp add: same_fixed_def)









lemma del_settled_persist:
  assumes "del_settled w p c" and sf: "same_fixed w w'"
    and "confno_p (pvts w' p) = confno_p (pvts w p)"
    and "curconf (csub w' c) = curconf (csub w c)"
  shows "del_settled w' p c"
  using assms(1,3,4)
  by (auto simp: del_settled_def isourconf_def csub_def same_fixed_fields [OF sf])

lemma del_settled_conf_add_line:
  assumes a: "allocating k N" and f: "del_settled w p c" and d: "c2 \<noteq> c" and mp: "m \<noteq> p"
  shows "del_settled (snd (conf_add k w m c2 i2 s2)) p c"
  using f same_fixed_conf_add
proof (rule del_settled_persist)
  show "confno_p (pvts (snd (conf_add k w m c2 i2 s2)) p) = confno_p (pvts w p)"
    using confno_conf_add(2) [OF a, of p m w c2 i2 s2] mp by simp
  show "curconf (csub (snd (conf_add k w m c2 i2 s2)) c) = curconf (csub w c)"
    using d by (simp add: curconf_conf_add_other)
qed





lemma sub_step_snd:
  "snd (conf_sub_step k p x (w, n)) =
     n + (if dfd (sub_of w p x) > - 1 \<and> inthreeway (sub_of w p x) then 1 else 0)"
  by (simp add: conf_sub_step_def Let_def)

lemma sub_loop_snd:
  "snd (fold (conf_sub_step k p) xs (w, n)) =
     n + int (length (filter (\<lambda>x. dfd (sub_of w p x) > - 1 \<and> inthreeway (sub_of w p x)) xs))"
proof (induction xs arbitrary: w n)
  case Nil
  show ?case by simp
next
  case (Cons x xs)
  obtain w1 n1 where s: "conf_sub_step k p x (w, n) = (w1, n1)"
    by (cases "conf_sub_step k p x (w, n)")
  have sf: "same_fixed w w1" using same_fixed_sub_step [of w k p x n] by (simp add: s)
  have n1: "n1 = n + (if dfd (sub_of w p x) > - 1 \<and> inthreeway (sub_of w p x) then 1 else 0)"
    using sub_step_snd [of k p x w n] by (simp add: s)
  show ?case
    by (simp add: s Cons.IH n1 same_fixed_fields [OF sf])
qed










lemma slave_step_snd:
  "snd (conf_slave_step k p u x (w, n)) =
     n + (if \<not> u \<and> slaves (pvts w p) x \<noteq> None then 1 else 0)"
  by (simp add: conf_slave_step_def Let_def split: option.split)

lemma slave_loop_snd:
  "snd (fold (conf_slave_step k p u) xs (w, n)) =
     n + (if u then 0 else int (length (filter (\<lambda>x. slaves (pvts w p) x \<noteq> None) xs)))"
proof (induction xs arbitrary: w n)
  case Nil
  show ?case by simp
next
  case (Cons x xs)
  obtain w1 n1 where s: "conf_slave_step k p u x (w, n) = (w1, n1)"
    by (cases "conf_slave_step k p u x (w, n)")
  have sf: "same_fixed w w1" using same_fixed_slave_step [of w k p u x n] by (simp add: s)
  have n1: "n1 = n + (if \<not> u \<and> slaves (pvts w p) x \<noteq> None then 1 else 0)"
    using slave_step_snd [of k p u x w n] by (simp add: s)
  show ?case
    by (simp add: s Cons.IH n1 same_fixed_fields [OF sf])
qed












lemma sub_loop_snd_cong:
  assumes "same_fixed w w'"
  shows "snd (fold (conf_sub_step k p) xs (w', n)) = snd (fold (conf_sub_step k p) xs (w, n))"
  by (simp add: sub_loop_snd same_fixed_fields [OF assms])

lemma slave_loop_snd_cong:
  assumes "same_fixed w w'"
  shows "snd (fold (conf_slave_step k p u) xs (w', n)) = snd (fold (conf_slave_step k p u) xs (w, n))"
  by (simp add: slave_loop_snd same_fixed_fields [OF assms])














section \<open>How a slave is merged: the mode and the conference\<close>













section \<open>Reconciling twice\<close>











end
